theory Spec2Isabelle
  imports Complex_Main "HOL-Library.Multiset" "HOL-Library.Log_Nat"
begin

section \<open>The data module of \<^verbatim>\<open>examples/gp_regression_example.py\<close>\<close>

text \<open>
  The development embeds \<^verbatim>\<open>VectorDataset\<close> and \<^verbatim>\<open>RandomDataModule\<close>.
  A two-dimensional tensor is a list of rows together with its column count (a tensor
  with no rows still has a width). Tensor entries are left polymorphic: no operation of
  the module computes with them. Python exceptions are values of \<open>py_error\<close>.
\<close>

subsection \<open>Tensors, indexing and slicing\<close>

datatype py_error = IndexError | TypeError | ValueError

record 'a tensor =
  width :: nat
  rows :: "'a list list"

text \<open>Every row of a well-formed tensor has the tensor's width.\<close>

definition wf_tensor :: "'a tensor \<Rightarrow> bool" where
  "wf_tensor t = list_all (\<lambda>r. length r = width t) (rows t)"

text \<open>\<^verbatim>\<open>len(t)\<close>, which is \<^verbatim>\<open>t.shape[0]\<close>.\<close>

definition tensor_len :: "'a tensor \<Rightarrow> nat" where
  "tensor_len t = length (rows t)"

text \<open>
  A slice bound of Python: a negative bound counts from the end, and every bound is
  clamped to \<open>[0, n]\<close>.
\<close>

definition slice_bound :: "nat \<Rightarrow> int \<Rightarrow> nat" where
  "slice_bound n i = (if i < 0 then nat (int n + i) else min n (nat i))"

definition slice_lo :: "nat \<Rightarrow> int \<Rightarrow> nat" where
  "slice_lo n start = slice_bound n start"

definition slice_hi :: "nat \<Rightarrow> int option \<Rightarrow> nat" where
  "slice_hi n stop = (case stop of None \<Rightarrow> n | Some j \<Rightarrow> slice_bound n j)"

text \<open>\<^verbatim>\<open>xs[start:stop]\<close> with step 1; \<^verbatim>\<open>stop\<close> may be \<^verbatim>\<open>None\<close>.\<close>

definition py_slice :: "int \<Rightarrow> int option \<Rightarrow> 'b list \<Rightarrow> 'b list" where
  "py_slice start stop xs =
     (let n = length xs; lo = slice_lo n start; hi = slice_hi n stop
      in take (hi - lo) (drop lo xs))"

text \<open>\<^verbatim>\<open>t[start:stop]\<close>: a range of rows.\<close>

definition rows_slice :: "int \<Rightarrow> int option \<Rightarrow> 'a tensor \<Rightarrow> 'a tensor" where
  "rows_slice start stop t = t\<lparr>rows := py_slice start stop (rows t)\<rparr>"

text \<open>\<^verbatim>\<open>t[:, start:stop]\<close>: a range of columns of every row.\<close>

definition cols_slice :: "int \<Rightarrow> int option \<Rightarrow> 'a tensor \<Rightarrow> 'a tensor" where
  "cols_slice start stop t =
     \<lparr>width = slice_hi (width t) stop - slice_lo (width t) start,
      rows = map (py_slice start stop) (rows t)\<rparr>"

text \<open>
  \<^verbatim>\<open>t[idx]\<close> for an index tensor \<^verbatim>\<open>idx\<close>: the rows of \<^verbatim>\<open>t\<close> in the order
  \<^verbatim>\<open>idx\<close> lists them. An index beyond the last row raises \<^verbatim>\<open>IndexError\<close>.
\<close>

definition index_rows :: "nat list \<Rightarrow> 'a tensor \<Rightarrow> py_error + 'a tensor" where
  "index_rows idx t =
     (if list_all (\<lambda>i. i < tensor_len t) idx
      then Inr (t\<lparr>rows := map (\<lambda>i. rows t ! i) idx\<rparr>)
      else Inl IndexError)"

text \<open>
  \<^verbatim>\<open>t[idx]\<close> for an integer \<^verbatim>\<open>idx\<close>: one row. A negative index counts from the
  end. An index that does not fit a signed 64-bit integer raises \<^verbatim>\<open>ValueError\<close> (the
  overflow when the library unpacks it); any other index outside \<open>[-n, n)\<close> raises
  \<^verbatim>\<open>IndexError\<close>. A tensor has fewer than \<open>2 ^ 63\<close> rows, so an index in \<open>[-n, n)\<close>
  always fits, and the model tests the range first.
\<close>

definition tensor_getitem :: "'a tensor \<Rightarrow> int \<Rightarrow> py_error + 'a list" where
  "tensor_getitem t idx =
     (let n = int (tensor_len t); j = (if idx < 0 then idx + n else idx)
      in if 0 \<le> j \<and> j < n then Inr (rows t ! nat j)
         else if idx < - (2 ^ 63) \<or> 2 ^ 63 \<le> idx then Inl ValueError
         else Inl IndexError)"

subsection \<open>VectorDataset\<close>

text \<open>
  The two fields hold whatever the constructor was given; the data module passes its
  partition fields, which are \<^verbatim>\<open>None\<close> until \<^verbatim>\<open>setup\<close> has run.
\<close>

record 'a VectorDataset =
  input_data :: "'a tensor option"
  output_data :: "'a tensor option"

text \<open>\<^verbatim>\<open>__len__\<close>: \<^verbatim>\<open>len(self.input_data)\<close>; \<^verbatim>\<open>len(None)\<close> raises \<^verbatim>\<open>TypeError\<close>.\<close>

definition VectorDataset_len :: "'a VectorDataset \<Rightarrow> py_error + nat" where
  "VectorDataset_len ds =
     (case input_data ds of None \<Rightarrow> Inl TypeError | Some t \<Rightarrow> Inr (tensor_len t))"

text \<open>
  \<^verbatim>\<open>__getitem__\<close>: \<^verbatim>\<open>self.input_data[idx], self.output_data[idx]\<close>, evaluated left to
  right; subscripting \<^verbatim>\<open>None\<close> raises \<^verbatim>\<open>TypeError\<close>.
\<close>

definition VectorDataset_getitem ::
  "'a VectorDataset \<Rightarrow> int \<Rightarrow> py_error + ('a list \<times> 'a list)" where
  "VectorDataset_getitem ds idx =
     (case input_data ds of
        None \<Rightarrow> Inl TypeError
      | Some inp \<Rightarrow>
          (case tensor_getitem inp idx of
             Inl e \<Rightarrow> Inl e
           | Inr x \<Rightarrow>
               (case output_data ds of
                  None \<Rightarrow> Inl TypeError
                | Some out \<Rightarrow>
                    (case tensor_getitem out idx of
                       Inl e \<Rightarrow> Inl e
                     | Inr y \<Rightarrow> Inr (x, y)))))"

subsection \<open>The loader handed to the trainer\<close>

text \<open>
  \<^verbatim>\<open>torch.utils.data.DataLoader\<close> belongs to the library, not to the repository. The
  model keeps the three arguments the accessors pass, the library's argument check
  (a negative worker count or a batch size that is not positive raises
  \<^verbatim>\<open>ValueError\<close>) and the library's batch count for a map-style dataset without
  \<^verbatim>\<open>drop_last\<close>: the dataset's length divided by the batch size, rounded up.
\<close>

record 'a DataLoader =
  dl_dataset :: "'a VectorDataset"
  dl_num_workers :: int
  dl_batch_size :: nat

definition DataLoader_new ::
  "'a VectorDataset \<Rightarrow> int \<Rightarrow> nat \<Rightarrow> py_error + 'a DataLoader" where
  "DataLoader_new ds nw bs =
     (if nw < 0 then Inl ValueError
      else if bs = 0 then Inl ValueError
      else Inr \<lparr>dl_dataset = ds, dl_num_workers = nw, dl_batch_size = bs\<rparr>)"

definition DataLoader_len :: "'a DataLoader \<Rightarrow> py_error + nat" where
  "DataLoader_len l =
     (case VectorDataset_len (dl_dataset l) of
        Inl e \<Rightarrow> Inl e
      | Inr n \<Rightarrow> Inr ((n + dl_batch_size l - 1) div dl_batch_size l))"

subsection \<open>RandomDataModule\<close>

text \<open>
  The object's attributes; \<open>data_num_workers\<close> is the one field of \<^verbatim>\<open>hparams\<close> the
  module reads.
\<close>

record 'a RandomDataModule =
  data_num_workers :: int
  data :: "'a tensor"
  batch_size :: nat
  train_input_data :: "'a tensor option"
  train_output_data :: "'a tensor option"
  val_input_data :: "'a tensor option"
  val_output_data :: "'a tensor option"
  test_input_data :: "'a tensor option"
  test_output_data :: "'a tensor option"

text \<open>\<^verbatim>\<open>__init__\<close>: the batch size is the length of the whole data set.\<close>

definition RandomDataModule_init :: "int \<Rightarrow> 'a tensor \<Rightarrow> 'a RandomDataModule" where
  "RandomDataModule_init hparams d =
     \<lparr>data_num_workers = hparams,
      data = d,
      batch_size = tensor_len d,
      train_input_data = None,
      train_output_data = None,
      val_input_data = None,
      val_output_data = None,
      test_input_data = None,
      test_output_data = None\<rparr>"

text \<open>\<^verbatim>\<open>_split_input_output_data\<close>, with its local constant \<^verbatim>\<open>input_dim = 1\<close>.\<close>

definition input_dim :: int where
  "input_dim = 1"

definition split_input_output_data :: "'a tensor \<Rightarrow> 'a tensor \<times> 'a tensor" where
  "split_input_output_data d =
     (let inp = cols_slice 0 (Some input_dim) d;
          out = cols_slice input_dim None d
      in (inp, out))"

text \<open>
  The local constants of \<^verbatim>\<open>setup\<close>. The source writes them as the float literals
  \<^verbatim>\<open>0.8\<close> and \<^verbatim>\<open>0.1\<close> and multiplies in double precision; the model multiplies
  exactly, over the rationals. The last subsection of the definitions writes the double
  precision product out, and \<open>double_product_agrees\<close> shows that its floor is the floor
  of the exact product for every row count below \<open>2 ^ 50\<close>.
\<close>

definition train_pct :: rat where
  "train_pct = 8 / 10"

definition val_pct :: rat where
  "val_pct = 1 / 10"

text \<open>
  \<^verbatim>\<open>math.floor(train_pct * samples)\<close> and
  \<^verbatim>\<open>train_samples_idx + math.floor(val_pct * samples)\<close>.
\<close>

definition train_samples_idx :: "nat \<Rightarrow> int" where
  "train_samples_idx samples = \<lfloor>train_pct * of_nat samples\<rfloor>"

definition val_samples_idx :: "nat \<Rightarrow> int" where
  "val_samples_idx samples = train_samples_idx samples + \<lfloor>val_pct * of_nat samples\<rfloor>"

text \<open>
  \<^verbatim>\<open>setup\<close>. The argument \<open>random_indices\<close> is the value \<^verbatim>\<open>torch.randperm\<close> returns
  in this call; \<open>is_randperm\<close> says what the library promises of it.
\<close>

definition is_randperm :: "nat \<Rightarrow> nat list \<Rightarrow> bool" where
  "is_randperm n p = (mset p = mset [0..<n])"

definition RandomDataModule_setup ::
  "string option \<Rightarrow> nat list \<Rightarrow> 'a RandomDataModule \<Rightarrow> py_error + 'a RandomDataModule" where
  "RandomDataModule_setup stage random_indices m =
     (let samples = tensor_len (data m)
      in case index_rows random_indices (data m) of
           Inl e \<Rightarrow> Inl e
         | Inr shuffled \<Rightarrow>
             (let train_data = rows_slice 0 (Some (train_samples_idx samples)) shuffled;
                  val_data = rows_slice (train_samples_idx samples)
                               (Some (val_samples_idx samples)) shuffled;
                  test_data = rows_slice (val_samples_idx samples) None shuffled;
                  (train_in, train_out) = split_input_output_data train_data;
                  (val_in, val_out) = split_input_output_data val_data;
                  (test_in, test_out) = split_input_output_data test_data
              in Inr (m\<lparr>data := shuffled,
                        train_input_data := Some train_in,
                        train_output_data := Some train_out,
                        val_input_data := Some val_in,
                        val_output_data := Some val_out,
                        test_input_data := Some test_in,
                        test_output_data := Some test_out\<rparr>)))"

text \<open>The three loader accessors.\<close>

definition train_dataloader :: "'a RandomDataModule \<Rightarrow> py_error + 'a DataLoader" where
  "train_dataloader m =
     (let train_split = \<lparr>input_data = train_input_data m,
                         output_data = train_output_data m\<rparr>
      in DataLoader_new train_split (data_num_workers m) (batch_size m))"

definition val_dataloader :: "'a RandomDataModule \<Rightarrow> py_error + 'a DataLoader" where
  "val_dataloader m =
     (let val_split = \<lparr>input_data = val_input_data m,
                       output_data = val_output_data m\<rparr>
      in DataLoader_new val_split (data_num_workers m) (batch_size m))"

definition test_dataloader :: "'a RandomDataModule \<Rightarrow> py_error + 'a DataLoader" where
  "test_dataloader m =
     (let test_split = \<lparr>input_data = test_input_data m,
                        output_data = test_output_data m\<rparr>
      in DataLoader_new test_split (data_num_workers m) (batch_size m))"

subsection \<open>The products in double precision\<close>

text \<open>
  Rounding a natural number to 53 significant bits, to nearest and ties to even: the
  rounding of a double precision result, up to a power of two. \<open>floorlog 2 P\<close> is the
  bit length of \<open>P\<close>.
\<close>

definition round53 :: "nat \<Rightarrow> nat" where
  "round53 P =
     (let s = floorlog 2 P - 53; q = P div 2 ^ s; r = P mod 2 ^ s
      in if 2 * r < 2 ^ s \<or> (2 * r = 2 ^ s \<and> even q) then q * 2 ^ s else (q + 1) * 2 ^ s)"

text \<open>
  The doubles nearest to 0.8 and to 0.1 have the same significand: they are
  \<open>double_significand / 2 ^ 53\<close> and \<open>double_significand / 2 ^ 56\<close>.
\<close>

definition double_significand :: nat where
  "double_significand = 7205759403792794"

text \<open>
  \<^verbatim>\<open>math.floor(c * samples)\<close> for the double \<open>c = double_significand / 2 ^ e\<close>:
  \<^verbatim>\<open>samples\<close> is converted to a double, the product is rounded to a double, and the
  floor is taken.
\<close>

definition floor_double_product :: "nat \<Rightarrow> nat \<Rightarrow> nat" where
  "floor_double_product e n = round53 (double_significand * round53 n) div 2 ^ e"

section \<open>Auxiliary facts\<close>

subsection \<open>The two split indices\<close>

lemma train_floor_div: "\<lfloor>train_pct * of_nat n\<rfloor> = int ((4 * n) div 5)"
proof -
  have "train_pct * of_nat n = of_int (int (4 * n)) / of_int 5"
    by (simp add: train_pct_def)
  then have "\<lfloor>train_pct * of_nat n\<rfloor> = int (4 * n) div 5"
    by (simp only: floor_divide_of_int_eq)
  then show ?thesis
    by (simp add: zdiv_int)
qed

lemma train_samples_idx_div: "train_samples_idx n = int ((4 * n) div 5)"
  by (simp add: train_samples_idx_def train_floor_div)

lemma val_floor_div: "\<lfloor>val_pct * of_nat n\<rfloor> = int (n div 10)"
proof -
  have "val_pct * of_nat n = of_int (int n) / of_int 10"
    by (simp add: val_pct_def)
  then have "\<lfloor>val_pct * of_nat n\<rfloor> = int n div 10"
    by (simp only: floor_divide_of_int_eq)
  then show ?thesis
    by (simp add: zdiv_int)
qed

lemma val_samples_idx_div: "val_samples_idx n = int ((4 * n) div 5 + n div 10)"
  by (simp add: val_samples_idx_def train_samples_idx_div val_floor_div)

subsection \<open>Slices and the column split\<close>

lemma py_slice_nat_Some:
  "a \<le> b \<Longrightarrow> py_slice (int a) (Some (int b)) xs = drop a (take b xs)"
  by (auto simp: py_slice_def slice_lo_def slice_hi_def slice_bound_def Let_def drop_take min_def)

lemma py_slice_nat_None: "py_slice (int a) None xs = drop a xs"
  by (auto simp: py_slice_def slice_lo_def slice_hi_def slice_bound_def Let_def min_def)

lemma py_slice_features: "py_slice 0 (Some input_dim) r = take 1 r"
  using py_slice_nat_Some [of 0 1 r] by (simp add: input_dim_def)

lemma py_slice_targets: "py_slice input_dim None r = drop 1 r"
  using py_slice_nat_None [of 1 r] by (simp add: input_dim_def)

lemma split_input_output_data_eq:
  "split_input_output_data d =
     (\<lparr>width = min 1 (width d), rows = map (take 1) (rows d)\<rparr>,
      \<lparr>width = width d - 1, rows = map (drop 1) (rows d)\<rparr>)"
proof -
  have "slice_hi (width d) (Some input_dim) - slice_lo (width d) 0 = min 1 (width d)"
    by (simp add: slice_lo_def slice_hi_def slice_bound_def input_dim_def min_def)
  moreover have "slice_hi (width d) None - slice_lo (width d) input_dim = width d - 1"
    by (simp add: slice_lo_def slice_hi_def slice_bound_def input_dim_def min_def)
  ultimately show ?thesis
    by (simp add: split_input_output_data_def cols_slice_def py_slice_features
        py_slice_targets)
qed

subsection \<open>Permutations\<close>

lemma randperm_set: "is_randperm n p \<Longrightarrow> set p = {0..<n}"
  unfolding is_randperm_def by (metis mset_eq_setD set_upt)

lemma randperm_length: "is_randperm n p \<Longrightarrow> length p = n"
  unfolding is_randperm_def by (metis mset_eq_length length_upt diff_zero)

lemma index_rows_randperm:
  assumes "is_randperm (tensor_len t) p"
  shows "index_rows p t = Inr (t\<lparr>rows := map ((!) (rows t)) p\<rparr>)"
  using randperm_set [OF assms] by (simp add: index_rows_def list_all_iff)

lemma shuffle_mset:
  assumes "is_randperm (length xs) p"
  shows "mset (map ((!) xs) p) = mset xs"
proof -
  have "mset (map ((!) xs) p) = image_mset ((!) xs) (mset p)" by simp
  also have "\<dots> = image_mset ((!) xs) (mset [0..<length xs])"
    using assms by (simp add: is_randperm_def)
  also have "\<dots> = mset (map ((!) xs) [0..<length xs])" by simp
  also have "\<dots> = mset xs" by (simp add: map_nth)
  finally show ?thesis .
qed

subsection \<open>The result of \<^verbatim>\<open>setup\<close>\<close>

lemma slice_train: "py_slice 0 (Some (train_samples_idx n)) xs = take ((4 * n) div 5) xs"
  using py_slice_nat_Some [of 0 "(4 * n) div 5" xs] by (simp add: train_samples_idx_div)

lemma slice_val:
  "py_slice (train_samples_idx n) (Some (val_samples_idx n)) xs =
     drop ((4 * n) div 5) (take ((4 * n) div 5 + n div 10) xs)"
  unfolding train_samples_idx_div val_samples_idx_div
  by (rule py_slice_nat_Some) simp

lemma slice_test: "py_slice (val_samples_idx n) None xs = drop ((4 * n) div 5 + n div 10) xs"
  unfolding val_samples_idx_div by (rule py_slice_nat_None)

lemma setup_randperm:
  assumes "is_randperm (tensor_len (data m)) p"
  shows "RandomDataModule_setup stage p m =
     Inr (let n = tensor_len (data m); w = width (data m);
              t = (4 * n) div 5; v = t + n div 10;
              sh = map ((!) (rows (data m))) p
          in m\<lparr>data := (data m)\<lparr>rows := sh\<rparr>,
               train_input_data := Some \<lparr>width = min 1 w, rows = map (take 1) (take t sh)\<rparr>,
               train_output_data := Some \<lparr>width = w - 1, rows = map (drop 1) (take t sh)\<rparr>,
               val_input_data :=
                 Some \<lparr>width = min 1 w, rows = map (take 1) (drop t (take v sh))\<rparr>,
               val_output_data :=
                 Some \<lparr>width = w - 1, rows = map (drop 1) (drop t (take v sh))\<rparr>,
               test_input_data := Some \<lparr>width = min 1 w, rows = map (take 1) (drop v sh)\<rparr>,
               test_output_data := Some \<lparr>width = w - 1, rows = map (drop 1) (drop v sh)\<rparr>\<rparr>)"
  unfolding RandomDataModule_setup_def
  by (simp add: index_rows_randperm [OF assms] rows_slice_def split_input_output_data_eq
      slice_train slice_val slice_test Let_def)

lemma rejoin_columns: "map2 (@) (map (take k) xs) (map (drop k) xs) = xs"
  by (induction xs) simp_all

lemma three_way_join:
  assumes "t \<le> v"
  shows "take t xs @ drop t (take v xs) @ drop v xs = xs"
proof -
  have "take t xs = take t (take v xs)"
    using assms by (simp add: min_def)
  then have a: "take t xs @ drop t (take v xs) = take v xs"
    by (simp only: append_take_drop_id)
  have "take t xs @ drop t (take v xs) @ drop v xs =
          (take t xs @ drop t (take v xs)) @ drop v xs"
    by (simp only: append_assoc)
  also have "\<dots> = take v xs @ drop v xs"
    by (simp only: a)
  also have "\<dots> = xs"
    by (rule append_take_drop_id)
  finally show ?thesis .
qed

lemma three_way_lengths:
  assumes "t \<le> v" "v \<le> length xs"
  shows "length (take t xs) = t" "length (drop t (take v xs)) = v - t"
    "length (drop v xs) = length xs - v"
  using assms by simp_all

lemma range_partition:
  fixes t v n :: nat
  assumes "t \<le> v" "v \<le> n"
  shows "{0..<t} \<inter> {t..<v} = {}" "{0..<t} \<inter> {v..<n} = {}" "{t..<v} \<inter> {v..<n} = {}"
    "{0..<t} \<union> {t..<v} \<union> {v..<n} = {0..<n}"
  using assms by auto

lemma setup_fields:
  assumes "is_randperm (tensor_len (data m)) p"
  shows "\<exists>m'.
    RandomDataModule_setup stage p m = Inr m' \<and>
    data m' = (data m)\<lparr>rows := map ((!) (rows (data m))) p\<rparr> \<and>
    data_num_workers m' = data_num_workers m \<and>
    batch_size m' = batch_size m \<and>
    train_input_data m' = Some \<lparr>width = min 1 (width (data m)),
       rows = map (take 1) (take ((4 * tensor_len (data m)) div 5)
                (map ((!) (rows (data m))) p))\<rparr> \<and>
    train_output_data m' = Some \<lparr>width = width (data m) - 1,
       rows = map (drop 1) (take ((4 * tensor_len (data m)) div 5)
                (map ((!) (rows (data m))) p))\<rparr> \<and>
    val_input_data m' = Some \<lparr>width = min 1 (width (data m)),
       rows = map (take 1) (drop ((4 * tensor_len (data m)) div 5)
                (take ((4 * tensor_len (data m)) div 5 + tensor_len (data m) div 10)
                  (map ((!) (rows (data m))) p)))\<rparr> \<and>
    val_output_data m' = Some \<lparr>width = width (data m) - 1,
       rows = map (drop 1) (drop ((4 * tensor_len (data m)) div 5)
                (take ((4 * tensor_len (data m)) div 5 + tensor_len (data m) div 10)
                  (map ((!) (rows (data m))) p)))\<rparr> \<and>
    test_input_data m' = Some \<lparr>width = min 1 (width (data m)),
       rows = map (take 1)
                (drop ((4 * tensor_len (data m)) div 5 + tensor_len (data m) div 10)
                  (map ((!) (rows (data m))) p))\<rparr> \<and>
    test_output_data m' = Some \<lparr>width = width (data m) - 1,
       rows = map (drop 1)
                (drop ((4 * tensor_len (data m)) div 5 + tensor_len (data m) div 10)
                  (map ((!) (rows (data m))) p))\<rparr>"
  unfolding setup_randperm [OF assms] by (simp add: Let_def)

subsection \<open>Datasets and loaders\<close>

lemma tensor_getitem_nat:
  "i < tensor_len t \<Longrightarrow> tensor_getitem t (int i) = Inr (rows t ! i)"
  by (simp add: tensor_getitem_def Let_def)

lemma VectorDataset_getitem_nat:
  assumes "i < tensor_len a" "i < tensor_len b"
  shows "VectorDataset_getitem \<lparr>input_data = Some a, output_data = Some b\<rparr> (int i) =
           Inr (rows a ! i, rows b ! i)"
  using assms by (simp add: VectorDataset_getitem_def tensor_getitem_nat)

lemma getitem_columns:
  assumes "i < length xs"
  shows "VectorDataset_getitem
           \<lparr>input_data = Some \<lparr>width = w1, rows = map (take k) xs\<rparr>,
            output_data = Some \<lparr>width = w2, rows = map (drop k) xs\<rparr>\<rparr> (int i) =
         Inr (take k (xs ! i), drop k (xs ! i))"
  using assms VectorDataset_getitem_nat
    [of i "\<lparr>width = w1, rows = map (take k) xs\<rparr>" "\<lparr>width = w2, rows = map (drop k) xs\<rparr>"]
  by (simp add: tensor_len_def)

lemma len_columns:
  "VectorDataset_len \<lparr>input_data = Some \<lparr>width = w1, rows = map f xs\<rparr>, output_data = b\<rparr> =
     Inr (length xs)"
  by (simp add: VectorDataset_len_def tensor_len_def)

text \<open>The equations that a run of the module on concrete rows unfolds.\<close>

lemmas eval_defs =
  RandomDataModule_setup_def RandomDataModule_init_def index_rows_def tensor_len_def
  rows_slice_def split_input_output_data_def cols_slice_def py_slice_def slice_lo_def
  slice_hi_def slice_bound_def input_dim_def train_samples_idx_div val_samples_idx_div
  Let_def

lemma full_batch_count:
  fixes k n :: nat
  assumes "k \<le> n" "0 < n"
  shows "(k + n - 1) div n = (if k = 0 then 0 else 1)"
proof (cases "k = 0")
  case True
  then show ?thesis using assms by simp
next
  case False
  then have "n \<le> k + n - 1" "k + n - 1 < 2 * n"
    using assms by simp_all
  then have "(k + n - 1) div n = 1"
    by (intro div_nat_eqI) simp_all
  with False show ?thesis by simp
qed

lemma DataLoader_new_ok:
  "0 \<le> nw \<Longrightarrow> 0 < bs \<Longrightarrow>
     DataLoader_new ds nw bs = Inr \<lparr>dl_dataset = ds, dl_num_workers = nw, dl_batch_size = bs\<rparr>"
  by (simp add: DataLoader_new_def)

lemma DataLoader_len_full:
  assumes "VectorDataset_len ds = Inr k" "k \<le> bs" "0 < bs"
  shows "DataLoader_len \<lparr>dl_dataset = ds, dl_num_workers = nw, dl_batch_size = bs\<rparr> =
           Inr (if k = 0 then 0 else 1)"
  using assms full_batch_count [of k bs] by (simp add: DataLoader_len_def)

lemma shuffle_twice:
  assumes "is_randperm (length xs) p"
  shows "map ((!) (map ((!) xs) p)) p = map (\<lambda>i. xs ! (p ! i)) p"
proof (rule map_cong [OF refl])
  fix i assume "i \<in> set p"
  then have "i < length p"
    using randperm_set [OF assms] randperm_length [OF assms] by simp
  then show "map ((!) xs) p ! i = xs ! (p ! i)"
    by simp
qed

lemma setup_contents:
  assumes "is_randperm (tensor_len (data m)) p"
  shows "\<exists>m' train_end val_end sh.
    RandomDataModule_setup stage p m = Inr m' \<and>
    int train_end = train_samples_idx (tensor_len (data m)) \<and>
    int val_end = val_samples_idx (tensor_len (data m)) \<and>
    sh = map ((!) (rows (data m))) p \<and>
    data m' = \<lparr>width = width (data m), rows = sh\<rparr> \<and>
    data_num_workers m' = data_num_workers m \<and>
    batch_size m' = batch_size m \<and>
    train_input_data m' =
      Some \<lparr>width = min (nat input_dim) (width (data m)),
            rows = map (take (nat input_dim)) (take train_end sh)\<rparr> \<and>
    train_output_data m' =
      Some \<lparr>width = width (data m) - nat input_dim,
            rows = map (drop (nat input_dim)) (take train_end sh)\<rparr> \<and>
    val_input_data m' =
      Some \<lparr>width = min (nat input_dim) (width (data m)),
            rows = map (take (nat input_dim)) (drop train_end (take val_end sh))\<rparr> \<and>
    val_output_data m' =
      Some \<lparr>width = width (data m) - nat input_dim,
            rows = map (drop (nat input_dim)) (drop train_end (take val_end sh))\<rparr> \<and>
    test_input_data m' =
      Some \<lparr>width = min (nat input_dim) (width (data m)),
            rows = map (take (nat input_dim)) (drop val_end sh)\<rparr> \<and>
    test_output_data m' =
      Some \<lparr>width = width (data m) - nat input_dim,
            rows = map (drop (nat input_dim)) (drop val_end sh)\<rparr>"
proof -
  have d: "nat input_dim = 1"
    by (simp add: input_dim_def)
  have e: "(data m)\<lparr>rows := xs\<rparr> = \<lparr>width = width (data m), rows = xs\<rparr>" for xs
    by simp
  from setup_fields [OF assms, of stage] show ?thesis
    unfolding d e
    apply (elim exE conjE)
    subgoal for m'
      apply (rule exI [of _ m'])
      apply (rule exI [of _ "(4 * tensor_len (data m)) div 5"])
      apply (rule exI [of _ "(4 * tensor_len (data m)) div 5 + tensor_len (data m) div 10"])
      apply (rule exI [of _ "map ((!) (rows (data m))) p"])
      apply (simp only: train_samples_idx_div val_samples_idx_div simp_thms)
      done
    done
qed

subsection \<open>Double precision and exact products\<close>

lemma round53_exact:
  assumes "P < 2 ^ 53"
  shows "round53 P = P"
proof -
  have "floorlog 2 P \<le> 53"
    using assms by (simp add: floorlog_le_iff)
  then have "floorlog 2 P - 53 = 0"
    by simp
  then show ?thesis
    by (simp add: round53_def)
qed

lemma round53_lower:
  fixes a P :: nat
  assumes "s \<le> e" "a * 2 ^ e \<le> P"
  shows "a * 2 ^ e \<le> (P div 2 ^ s) * 2 ^ s"
proof -
  have eq: "a * 2 ^ e = (a * 2 ^ (e - s)) * (2::nat) ^ s"
    using assms(1) by (simp add: power_add [symmetric])
  have "(a * 2 ^ (e - s)) * (2::nat) ^ s \<le> P"
    using assms(2) by (simp only: eq)
  then have "a * 2 ^ (e - s) \<le> P div 2 ^ s"
    by (simp add: less_eq_div_iff_mult_less_eq)
  then have "(a * 2 ^ (e - s)) * (2::nat) ^ s \<le> (P div 2 ^ s) * 2 ^ s"
    by (rule mult_le_mono1)
  then show ?thesis
    by (simp only: eq)
qed

lemma round53_bounds:
  fixes P :: nat
  shows "(P div 2 ^ (floorlog 2 P - 53)) * 2 ^ (floorlog 2 P - 53) \<le> round53 P"
    and "2 * round53 P \<le> 2 * P + 2 ^ (floorlog 2 P - 53)"
    and "floorlog 2 P \<le> 53 \<Longrightarrow> round53 P = P"
proof -
  let ?s = "floorlog 2 P - 53"
  let ?q = "P div 2 ^ ?s"
  let ?r = "P mod 2 ^ ?s"
  have P': "?q * 2 ^ ?s + ?r = P"
    by (rule div_mult_mod_eq)
  show "?q * 2 ^ ?s \<le> round53 P"
    by (simp add: round53_def Let_def)
  show "2 * round53 P \<le> 2 * P + 2 ^ ?s"
  proof (cases "2 * ?r < 2 ^ ?s \<or> (2 * ?r = 2 ^ ?s \<and> even ?q)")
    case True
    then have "round53 P = ?q * 2 ^ ?s"
      by (simp add: round53_def Let_def)
    also have "\<dots> \<le> P"
      by simp
    finally show ?thesis
      by simp
  next
    case False
    then have r: "2 ^ ?s \<le> 2 * ?r"
      by auto
    from False have "round53 P = (?q + 1) * 2 ^ ?s"
      by (simp add: round53_def Let_def)
    then have "2 * round53 P = 2 * (?q * 2 ^ ?s) + 2 * 2 ^ ?s"
      by (simp add: algebra_simps)
    also have "\<dots> \<le> 2 * (?q * 2 ^ ?s) + 2 * ?r + 2 ^ ?s"
      using r by simp
    also have "\<dots> = 2 * P + 2 ^ ?s"
      using P' by linarith
    finally show ?thesis .
  qed
  show "round53 P = P" if "floorlog 2 P \<le> 53"
    using that by (simp add: round53_def)
qed

lemma round53_floor:
  fixes a P :: nat
  assumes "P < 2 ^ 103" and "50 \<le> e" and "a * 2 ^ e \<le> P" and "P + 2 ^ 49 < (a + 1) * 2 ^ e"
  shows "round53 P div 2 ^ e = a"
proof -
  let ?s = "floorlog 2 P - 53"
  have "floorlog 2 P \<le> 103"
    using assms(1) by (simp add: floorlog_le_iff)
  then have s: "?s \<le> 50"
    by simp
  then have se: "?s \<le> e"
    using assms(2) by simp
  have lo: "a * 2 ^ e \<le> round53 P"
    using round53_lower [OF se assms(3)] round53_bounds(1) [of P] by (rule order_trans)
  have "(2::nat) ^ ?s \<le> 2 ^ 50"
    using s by (rule power_increasing) simp
  then have "2 * round53 P \<le> 2 * P + 2 ^ 50"
    using round53_bounds(2) [of P] by linarith
  then have "round53 P \<le> P + 2 ^ 49"
    by simp
  then have hi: "round53 P < (a + 1) * 2 ^ e"
    using assms(4) by (rule le_less_trans)
  show ?thesis
    using lo hi by (intro div_nat_eqI) (simp_all add: mult.commute)
qed

lemma train_product_upper:
  fixes n a :: nat
  assumes "4 * n \<le> 5 * a + 4" "n < 1125899906842624"
  shows "7205759403792794 * n + 562949953421312 < (a + 1) * 9007199254740992"
proof -
  have "5 * (7205759403792794 * n + 562949953421312) = 9007199254740992 * (4 * n) + (2 * n + 2814749767106560)"
    by simp
  also have "\<dots> \<le> 9007199254740992 * (5 * a + 4) + (2 * n + 2814749767106560)"
    using assms(1) by (intro add_mono mult_le_mono order_refl)
  also have "\<dots> < 9007199254740992 * (5 * a + 4) + 9007199254740992"
    using assms(2) by simp
  also have "\<dots> = 5 * ((a + 1) * 9007199254740992)"
    by simp
  finally show ?thesis
    by simp
qed

lemma val_product_upper:
  fixes n a :: nat
  assumes "n \<le> 10 * a + 9" "n < 1125899906842624"
  shows "7205759403792794 * n + 562949953421312 < (a + 1) * 72057594037927936"
proof -
  have "10 * (7205759403792794 * n + 562949953421312) = 72057594037927936 * n + (4 * n + 5629499534213120)"
    by simp
  also have "\<dots> \<le> 72057594037927936 * (10 * a + 9) + (4 * n + 5629499534213120)"
    using assms(1) by (intro add_mono mult_le_mono order_refl)
  also have "\<dots> < 72057594037927936 * (10 * a + 9) + 72057594037927936"
    using assms(2) by simp
  also have "\<dots> = 10 * ((a + 1) * 72057594037927936)"
    by simp
  finally show ?thesis
    by simp
qed

lemma floor_double_product_train:
  assumes "n < 2 ^ 50"
  shows "floor_double_product 53 n = (4 * n) div 5"
proof -
  let ?a = "(4 * n) div 5"
  let ?P = "7205759403792794 * n"
  have rn: "round53 n = n"
    using assms by (intro round53_exact) simp
  have a: "5 * ?a \<le> 4 * n" "4 * n \<le> 5 * ?a + 4"
    by presburger+
  have n: "n < 1125899906842624"
    using assms by simp
  have "?P < 2 ^ 103"
    using n by simp
  moreover have "(50::nat) \<le> 53"
    by simp
  moreover have "?a * 9007199254740992 \<le> ?P"
    using a by linarith
  then have "?a * 2 ^ 53 \<le> ?P"
    by simp
  moreover have "?P + 562949953421312 < (?a + 1) * 9007199254740992"
    using a(2) n by (rule train_product_upper)
  then have "?P + 2 ^ 49 < (?a + 1) * 2 ^ 53"
    by simp
  ultimately have "round53 ?P div 2 ^ 53 = ?a"
    by (rule round53_floor)
  then show ?thesis
    by (simp add: floor_double_product_def double_significand_def rn)
qed

lemma floor_double_product_val:
  assumes "n < 2 ^ 50"
  shows "floor_double_product 56 n = n div 10"
proof -
  let ?a = "n div 10"
  let ?P = "7205759403792794 * n"
  have rn: "round53 n = n"
    using assms by (intro round53_exact) simp
  have a: "10 * ?a \<le> n" "n \<le> 10 * ?a + 9"
    by presburger+
  have n: "n < 1125899906842624"
    using assms by simp
  have "?P < 2 ^ 103"
    using n by simp
  moreover have "(50::nat) \<le> 56"
    by simp
  moreover have "?a * 72057594037927936 \<le> ?P"
    using a by linarith
  then have "?a * 2 ^ 56 \<le> ?P"
    by simp
  moreover have "?P + 562949953421312 < (?a + 1) * 72057594037927936"
    using a(2) n by (rule val_product_upper)
  then have "?P + 2 ^ 49 < (?a + 1) * 2 ^ 56"
    by simp
  ultimately have "round53 ?P div 2 ^ 56 = ?a"
    by (rule round53_floor)
  then show ?thesis
    by (simp add: floor_double_product_def double_significand_def rn)
qed

lemma double_significand_nearest:
  "2 ^ 52 \<le> double_significand \<and> double_significand < 2 ^ 53 \<and>
   \<bar>of_nat double_significand / 2 ^ 53 - train_pct\<bar> < 1 / 2 ^ 54 \<and>
   \<bar>of_nat double_significand / 2 ^ 56 - val_pct\<bar> < 1 / 2 ^ 57"
  by (simp add: double_significand_def train_pct_def val_pct_def)

lemma double_product_agrees:
  assumes "n < 2 ^ 50"
  shows "int (floor_double_product 53 n) = train_samples_idx n"
    and "int (floor_double_product 53 n) + int (floor_double_product 56 n) = val_samples_idx n"
  using assms
  by (simp_all add: floor_double_product_train floor_double_product_val train_samples_idx_div
      val_samples_idx_div)

section \<open>The claims\<close>

subsection \<open>Claim C1\<close>

text \<open>
  Claim C1 as stated fails on two rows: the train partition has one row, and the train
  loader's batch size is 2, the row count of the whole data set.
\<close>

theorem loader_batch_size_counterexample:
  "RandomDataModule_setup None [1, 0]
     (RandomDataModule_init 4 \<lparr>width = 2, rows = [[1, 2], [3, 4::int]]\<rparr>) =
   Inr \<lparr>data_num_workers = 4,
        data = \<lparr>width = 2, rows = [[3, 4], [1, 2]]\<rparr>,
        batch_size = 2,
        train_input_data = Some \<lparr>width = 1, rows = [[3]]\<rparr>,
        train_output_data = Some \<lparr>width = 1, rows = [[4]]\<rparr>,
        val_input_data = Some \<lparr>width = 1, rows = []\<rparr>,
        val_output_data = Some \<lparr>width = 1, rows = []\<rparr>,
        test_input_data = Some \<lparr>width = 1, rows = [[1]]\<rparr>,
        test_output_data = Some \<lparr>width = 1, rows = [[2]]\<rparr>\<rparr> \<and>
   train_dataloader
     \<lparr>data_num_workers = 4,
      data = \<lparr>width = 2, rows = [[3, 4], [1, 2::int]]\<rparr>,
      batch_size = 2,
      train_input_data = Some \<lparr>width = 1, rows = [[3]]\<rparr>,
      train_output_data = Some \<lparr>width = 1, rows = [[4]]\<rparr>,
      val_input_data = Some \<lparr>width = 1, rows = []\<rparr>,
      val_output_data = Some \<lparr>width = 1, rows = []\<rparr>,
      test_input_data = Some \<lparr>width = 1, rows = [[1]]\<rparr>,
      test_output_data = Some \<lparr>width = 1, rows = [[2]]\<rparr>\<rparr> =
   Inr \<lparr>dl_dataset = \<lparr>input_data = Some \<lparr>width = 1, rows = [[3]]\<rparr>,
                        output_data = Some \<lparr>width = 1, rows = [[4]]\<rparr>\<rparr>,
        dl_num_workers = 4,
        dl_batch_size = 2\<rparr> \<and>
   VectorDataset_len \<lparr>input_data = Some \<lparr>width = 1, rows = [[3::int]]\<rparr>,
                      output_data = Some \<lparr>width = 1, rows = [[4]]\<rparr>\<rparr> = Inr 1"
  by (simp add: eval_defs train_dataloader_def DataLoader_new_def VectorDataset_len_def)

text \<open>
  Claim C1, amended. For a data set with at least one row and a worker count that is
  not negative, each of the three accessors called after \<^verbatim>\<open>setup\<close> returns a loader
  over its own partition's dataset whose batch size is the row count of the whole data
  set, which is at least the partition's row count; such a loader has one batch when
  its partition has rows and no batch when it has none.
\<close>

theorem loaders_after_setup:
  assumes "is_randperm (tensor_len d) p" and "0 < tensor_len d" and "0 \<le> hparams"
  shows "\<exists>m' train_end val_end tl vl sl.
           RandomDataModule_setup stage p (RandomDataModule_init hparams d) = Inr m' \<and>
           int train_end = train_samples_idx (tensor_len d) \<and>
           int val_end = val_samples_idx (tensor_len d) \<and>
           train_dataloader m' = Inr tl \<and>
           val_dataloader m' = Inr vl \<and>
           test_dataloader m' = Inr sl \<and>
           dl_dataset tl = \<lparr>input_data = train_input_data m',
                             output_data = train_output_data m'\<rparr> \<and>
           dl_dataset vl = \<lparr>input_data = val_input_data m',
                             output_data = val_output_data m'\<rparr> \<and>
           dl_dataset sl = \<lparr>input_data = test_input_data m',
                             output_data = test_output_data m'\<rparr> \<and>
           dl_num_workers tl = hparams \<and> dl_num_workers vl = hparams \<and>
           dl_num_workers sl = hparams \<and>
           dl_batch_size tl = tensor_len d \<and> dl_batch_size vl = tensor_len d \<and>
           dl_batch_size sl = tensor_len d \<and>
           VectorDataset_len (dl_dataset tl) = Inr train_end \<and>
           VectorDataset_len (dl_dataset vl) = Inr (val_end - train_end) \<and>
           VectorDataset_len (dl_dataset sl) = Inr (tensor_len d - val_end) \<and>
           train_end \<le> dl_batch_size tl \<and>
           val_end - train_end \<le> dl_batch_size vl \<and>
           tensor_len d - val_end \<le> dl_batch_size sl \<and>
           DataLoader_len tl = Inr (if train_end = 0 then 0 else 1) \<and>
           DataLoader_len vl = Inr (if val_end - train_end = 0 then 0 else 1) \<and>
           DataLoader_len sl = Inr (if tensor_len d - val_end = 0 then 0 else 1)"
proof -
  let ?m = "RandomDataModule_init hparams d"
  let ?n = "tensor_len d"
  let ?t = "(4 * ?n) div 5"
  let ?v = "?t + ?n div 10"
  let ?sh = "map ((!) (rows d)) p"
  have dm: "data ?m = d" and bm: "batch_size ?m = ?n" and wm: "data_num_workers ?m = hparams"
    by (simp_all add: RandomDataModule_init_def)
  have rp: "is_randperm (tensor_len (data ?m)) p"
    using assms(1) by (simp only: dm)
  obtain m' where m': "RandomDataModule_setup stage p ?m = Inr m'"
    and w: "data_num_workers m' = hparams" and b: "batch_size m' = ?n"
    and f: "train_input_data m' = Some \<lparr>width = min 1 (width d),
              rows = map (take 1) (take ?t ?sh)\<rparr>"
      "val_input_data m' = Some \<lparr>width = min 1 (width d),
              rows = map (take 1) (drop ?t (take ?v ?sh))\<rparr>"
      "test_input_data m' = Some \<lparr>width = min 1 (width d),
              rows = map (take 1) (drop ?v ?sh)\<rparr>"
    using setup_fields [OF rp, of stage] unfolding dm bm wm by blast
  let ?trd = "\<lparr>input_data = train_input_data m', output_data = train_output_data m'\<rparr>"
  let ?vad = "\<lparr>input_data = val_input_data m', output_data = val_output_data m'\<rparr>"
  let ?ted = "\<lparr>input_data = test_input_data m', output_data = test_output_data m'\<rparr>"
  let ?tl = "\<lparr>dl_dataset = ?trd, dl_num_workers = hparams, dl_batch_size = ?n\<rparr>"
  let ?vl = "\<lparr>dl_dataset = ?vad, dl_num_workers = hparams, dl_batch_size = ?n\<rparr>"
  let ?sl = "\<lparr>dl_dataset = ?ted, dl_num_workers = hparams, dl_batch_size = ?n\<rparr>"
  have len: "length ?sh = ?n"
    using randperm_length [OF assms(1)] by simp
  have le: "?t \<le> ?v" "?v \<le> ?n"
    by simp_all
  have le': "?v \<le> length ?sh"
    using le(2) len by simp
  note ls = three_way_lengths [OF le(1) le', unfolded len]
  have lens: "VectorDataset_len ?trd = Inr ?t" "VectorDataset_len ?vad = Inr (?v - ?t)"
    "VectorDataset_len ?ted = Inr (?n - ?v)"
    unfolding f len_columns by (simp_all only: ls)
  have bound: "?t \<le> ?n" "?v - ?t \<le> ?n" "?n - ?v \<le> ?n"
    by simp_all
  have ld: "train_dataloader m' = Inr ?tl" "val_dataloader m' = Inr ?vl"
    "test_dataloader m' = Inr ?sl"
    unfolding train_dataloader_def val_dataloader_def test_dataloader_def Let_def w b
    by (rule DataLoader_new_ok [OF assms(3) assms(2)])+
  show ?thesis
  proof (intro exI conjI)
    show "RandomDataModule_setup stage p ?m = Inr m'"
      by (rule m')
    show "int ?t = train_samples_idx ?n" "int ?v = val_samples_idx ?n"
      by (simp_all only: train_samples_idx_div val_samples_idx_div)
    show "train_dataloader m' = Inr ?tl" "val_dataloader m' = Inr ?vl"
      "test_dataloader m' = Inr ?sl"
      by (rule ld)+
    show "dl_dataset ?tl = ?trd" "dl_dataset ?vl = ?vad" "dl_dataset ?sl = ?ted"
      by simp_all
    show "dl_num_workers ?tl = hparams" "dl_num_workers ?vl = hparams"
      "dl_num_workers ?sl = hparams"
      by simp_all
    show "dl_batch_size ?tl = ?n" "dl_batch_size ?vl = ?n" "dl_batch_size ?sl = ?n"
      by simp_all
    show "VectorDataset_len (dl_dataset ?tl) = Inr ?t"
      "VectorDataset_len (dl_dataset ?vl) = Inr (?v - ?t)"
      "VectorDataset_len (dl_dataset ?sl) = Inr (?n - ?v)"
      using lens by simp_all
    show "?t \<le> dl_batch_size ?tl" "?v - ?t \<le> dl_batch_size ?vl"
      "?n - ?v \<le> dl_batch_size ?sl"
      using bound by simp_all
    show "DataLoader_len ?tl = Inr (if ?t = 0 then 0 else 1)"
      by (rule DataLoader_len_full [OF lens(1) bound(1) assms(2)])
    show "DataLoader_len ?vl = Inr (if ?v - ?t = 0 then 0 else 1)"
      by (rule DataLoader_len_full [OF lens(2) bound(2) assms(2)])
    show "DataLoader_len ?sl = Inr (if ?n - ?v = 0 then 0 else 1)"
      by (rule DataLoader_len_full [OF lens(3) bound(3) assms(2)])
  qed
qed

theorem loaders_after_setup_witness:
  "is_randperm (tensor_len \<lparr>width = 2, rows = [[1, 2], [3, 4], [5, 6::int]]\<rparr>) [2, 0, 1] \<and>
   0 < tensor_len \<lparr>width = 2, rows = [[1, 2], [3, 4], [5, 6::int]]\<rparr> \<and>
   (0::int) \<le> 4 \<and>
   (\<exists>m' tl vl.
       RandomDataModule_setup None [2, 0, 1]
         (RandomDataModule_init 4 \<lparr>width = 2, rows = [[1, 2], [3, 4], [5, 6::int]]\<rparr>) = Inr m' \<and>
       train_dataloader m' = Inr tl \<and>
       dl_batch_size tl = 3 \<and>
       VectorDataset_len (dl_dataset tl) = Inr 2 \<and>
       DataLoader_len tl = Inr 1 \<and>
       val_dataloader m' = Inr vl \<and>
       dl_batch_size vl = 3 \<and>
       VectorDataset_len (dl_dataset vl) = Inr 0 \<and>
       DataLoader_len vl = Inr 0)"
proof -
  let ?d = "\<lparr>width = 2, rows = [[1, 2], [3, 4], [5, 6::int]]\<rparr>"
  have n: "tensor_len ?d = 3"
    by (simp add: tensor_len_def)
  have u: "[0..<3] = [0, 1, 2]"
    by (simp add: upt_rec)
  have h1: "is_randperm (tensor_len ?d) [2, 0, 1]"
    unfolding n is_randperm_def u by simp
  have h2: "0 < tensor_len ?d"
    unfolding n by simp
  have h3: "(0::int) \<le> 4"
    by simp
  have idx: "train_samples_idx 3 = 2" "val_samples_idx 3 = 2"
    by (simp_all add: train_samples_idx_div val_samples_idx_div)
  from loaders_after_setup [OF h1 h2 h3, of None] obtain m' train_end val_end tl vl where
    s: "RandomDataModule_setup None [2, 0, 1] (RandomDataModule_init 4 ?d) = Inr m'"
    and t: "int train_end = train_samples_idx (tensor_len ?d)"
    and v: "int val_end = val_samples_idx (tensor_len ?d)"
    and l: "train_dataloader m' = Inr tl" "val_dataloader m' = Inr vl"
    and b: "dl_batch_size tl = tensor_len ?d" "dl_batch_size vl = tensor_len ?d"
    and k: "VectorDataset_len (dl_dataset tl) = Inr train_end"
      "VectorDataset_len (dl_dataset vl) = Inr (val_end - train_end)"
    and c: "DataLoader_len tl = Inr (if train_end = 0 then 0 else 1)"
      "DataLoader_len vl = Inr (if val_end - train_end = 0 then 0 else 1)"
    by blast
  have te: "train_end = 2" and ve: "val_end = 2"
    using t v unfolding n idx by simp_all
  have "dl_batch_size tl = 3" "VectorDataset_len (dl_dataset tl) = Inr 2"
    "DataLoader_len tl = Inr 1" "dl_batch_size vl = 3"
    "VectorDataset_len (dl_dataset vl) = Inr 0" "DataLoader_len vl = Inr 0"
    using b k c unfolding te ve n by simp_all
  with h1 h2 h3 s l show ?thesis
    by blast
qed

subsection \<open>Claim C2\<close>

text \<open>
  Claim C2. For a data module with \<open>n\<close> rows and a permutation drawn by
  \<^verbatim>\<open>randperm\<close>, \<^verbatim>\<open>setup\<close> returns; with \<open>train_end = \<lfloor>train_pct * n\<rfloor>\<close> and
  \<open>val_end = train_end + \<lfloor>val_pct * n\<rfloor>\<close>, the train, validation and test tensors are
  the feature and target columns of the rows \<open>[0, train_end)\<close>, \<open>[train_end, val_end)\<close>
  and \<open>[val_end, n)\<close> of the shuffled data. Below \<open>2 ^ 50\<close> rows the products the source
  takes in double precision have the same floors. For 10 rows the indices are 8 and 9,
  for 2 rows they are 1 and 1.
\<close>

theorem setup_row_ranges:
  assumes "is_randperm (tensor_len (data m)) p"
  shows "(\<exists>m' train_end val_end sh.
            RandomDataModule_setup stage p m = Inr m' \<and>
            int train_end = \<lfloor>train_pct * of_nat (tensor_len (data m))\<rfloor> \<and>
            int val_end = int train_end + \<lfloor>val_pct * of_nat (tensor_len (data m))\<rfloor> \<and>
            sh = map ((!) (rows (data m))) p \<and>
            rows (data m') = sh \<and>
            map_option rows (train_input_data m') =
              Some (map (take (nat input_dim)) (take train_end sh)) \<and>
            map_option rows (train_output_data m') =
              Some (map (drop (nat input_dim)) (take train_end sh)) \<and>
            map_option rows (val_input_data m') =
              Some (map (take (nat input_dim)) (drop train_end (take val_end sh))) \<and>
            map_option rows (val_output_data m') =
              Some (map (drop (nat input_dim)) (drop train_end (take val_end sh))) \<and>
            map_option rows (test_input_data m') =
              Some (map (take (nat input_dim))
                     (drop val_end (take (tensor_len (data m)) sh))) \<and>
            map_option rows (test_output_data m') =
              Some (map (drop (nat input_dim))
                     (drop val_end (take (tensor_len (data m)) sh))) \<and>
            (tensor_len (data m) < 2 ^ 50 \<longrightarrow>
               floor_double_product 53 (tensor_len (data m)) = train_end \<and>
               train_end + floor_double_product 56 (tensor_len (data m)) = val_end)) \<and>
         train_samples_idx 10 = 8 \<and> val_samples_idx 10 = 9 \<and>
         train_samples_idx 2 = 1 \<and> val_samples_idx 2 = 1"
proof -
  let ?n = "tensor_len (data m)"
  let ?t = "(4 * ?n) div 5"
  let ?v = "?t + ?n div 10"
  let ?sh = "map ((!) (rows (data m))) p"
  have len: "length ?sh = ?n"
    using randperm_length [OF assms] by simp
  have t: "int ?t = \<lfloor>train_pct * of_nat ?n\<rfloor>"
    using train_samples_idx_div [of ?n] by (simp add: train_samples_idx_def)
  have v: "int ?v = int ?t + \<lfloor>val_pct * of_nat ?n\<rfloor>"
    by (simp add: val_floor_div)
  have full: "take ?n ?sh = ?sh"
    using len by simp
  have dbl: "?n < 2 ^ 50 \<longrightarrow>
      floor_double_product 53 ?n = ?t \<and> ?t + floor_double_product 56 ?n = ?v"
    by (simp add: floor_double_product_train floor_double_product_val)
  obtain m' where m': "RandomDataModule_setup stage p m = Inr m'"
    and d: "rows (data m') = ?sh"
    and f: "map_option rows (train_input_data m') = Some (map (take 1) (take ?t ?sh))"
      "map_option rows (train_output_data m') = Some (map (drop 1) (take ?t ?sh))"
      "map_option rows (val_input_data m') = Some (map (take 1) (drop ?t (take ?v ?sh)))"
      "map_option rows (val_output_data m') = Some (map (drop 1) (drop ?t (take ?v ?sh)))"
      "map_option rows (test_input_data m') = Some (map (take 1) (drop ?v ?sh))"
      "map_option rows (test_output_data m') = Some (map (drop 1) (drop ?v ?sh))"
    using setup_randperm [OF assms, of stage] by (simp add: Let_def)
  have "\<exists>m' train_end val_end sh.
            RandomDataModule_setup stage p m = Inr m' \<and>
            int train_end = \<lfloor>train_pct * of_nat (tensor_len (data m))\<rfloor> \<and>
            int val_end = int train_end + \<lfloor>val_pct * of_nat (tensor_len (data m))\<rfloor> \<and>
            sh = map ((!) (rows (data m))) p \<and>
            rows (data m') = sh \<and>
            map_option rows (train_input_data m') =
              Some (map (take (nat input_dim)) (take train_end sh)) \<and>
            map_option rows (train_output_data m') =
              Some (map (drop (nat input_dim)) (take train_end sh)) \<and>
            map_option rows (val_input_data m') =
              Some (map (take (nat input_dim)) (drop train_end (take val_end sh))) \<and>
            map_option rows (val_output_data m') =
              Some (map (drop (nat input_dim)) (drop train_end (take val_end sh))) \<and>
            map_option rows (test_input_data m') =
              Some (map (take (nat input_dim))
                     (drop val_end (take (tensor_len (data m)) sh))) \<and>
            map_option rows (test_output_data m') =
              Some (map (drop (nat input_dim))
                     (drop val_end (take (tensor_len (data m)) sh))) \<and>
            (tensor_len (data m) < 2 ^ 50 \<longrightarrow>
               floor_double_product 53 (tensor_len (data m)) = train_end \<and>
               train_end + floor_double_product 56 (tensor_len (data m)) = val_end)"
    apply (rule exI [of _ m'], rule exI [of _ ?t], rule exI [of _ ?v], rule exI [of _ ?sh])
    using m' d f t v full dbl by (simp add: input_dim_def)
  moreover have "train_samples_idx 10 = 8 \<and> val_samples_idx 10 = 9 \<and>
         train_samples_idx 2 = 1 \<and> val_samples_idx 2 = 1"
    by (simp add: train_samples_idx_div val_samples_idx_div)
  ultimately show ?thesis by blast
qed

theorem setup_row_ranges_witness:
  "is_randperm (tensor_len (data (RandomDataModule_init 4
       \<lparr>width = 2, rows = [[1, 2], [3, 4], [5, 6::int]]\<rparr>))) [2, 0, 1] \<and>
   (\<exists>m'. RandomDataModule_setup None [2, 0, 1]
           (RandomDataModule_init 4 \<lparr>width = 2, rows = [[1, 2], [3, 4], [5, 6::int]]\<rparr>) = Inr m' \<and>
         rows (data m') = [[5, 6], [1, 2], [3, 4]] \<and>
         map_option rows (train_input_data m') = Some [[5], [1]] \<and>
         map_option rows (train_output_data m') = Some [[6], [2]] \<and>
         map_option rows (val_input_data m') = Some [] \<and>
         map_option rows (val_output_data m') = Some [] \<and>
         map_option rows (test_input_data m') = Some [[3]] \<and>
         map_option rows (test_output_data m') = Some [[4]] \<and>
         floor_double_product 53 3 = 2 \<and>
         floor_double_product 56 3 = 0)"
proof -
  let ?m = "RandomDataModule_init 4 \<lparr>width = 2, rows = [[1, 2], [3, 4], [5, 6::int]]\<rparr>"
  have n: "tensor_len (data ?m) = 3"
    by (simp add: RandomDataModule_init_def tensor_len_def)
  have r: "rows (data ?m) = [[1, 2], [3, 4], [5, 6]]"
    by (simp add: RandomDataModule_init_def)
  have u: "[0..<3] = [0, 1, 2]"
    by (simp add: upt_rec)
  have h: "is_randperm (tensor_len (data ?m)) [2, 0, 1]"
    unfolding n is_randperm_def u by simp
  have fl: "\<lfloor>train_pct * of_nat 3\<rfloor> = 2" "\<lfloor>val_pct * of_nat 3\<rfloor> = 0"
    using train_floor_div [of 3] val_floor_div [of 3] by simp_all
  from setup_row_ranges [OF h, of None] obtain m' train_end val_end sh where
    "RandomDataModule_setup None [2, 0, 1] ?m = Inr m'"
    "int train_end = \<lfloor>train_pct * of_nat (tensor_len (data ?m))\<rfloor>"
    "int val_end = int train_end + \<lfloor>val_pct * of_nat (tensor_len (data ?m))\<rfloor>"
    "sh = map ((!) (rows (data ?m))) [2, 0, 1]"
    "rows (data m') = sh"
    "map_option rows (train_input_data m') = Some (map (take (nat input_dim)) (take train_end sh))"
    "map_option rows (train_output_data m') = Some (map (drop (nat input_dim)) (take train_end sh))"
    "map_option rows (val_input_data m') =
       Some (map (take (nat input_dim)) (drop train_end (take val_end sh)))"
    "map_option rows (val_output_data m') =
       Some (map (drop (nat input_dim)) (drop train_end (take val_end sh)))"
    "map_option rows (test_input_data m') =
       Some (map (take (nat input_dim)) (drop val_end (take (tensor_len (data ?m)) sh)))"
    "map_option rows (test_output_data m') =
       Some (map (drop (nat input_dim)) (drop val_end (take (tensor_len (data ?m)) sh)))"
    "tensor_len (data ?m) < 2 ^ 50 \<longrightarrow>
       floor_double_product 53 (tensor_len (data ?m)) = train_end \<and>
       train_end + floor_double_product 56 (tensor_len (data ?m)) = val_end"
    by blast
  then have "RandomDataModule_setup None [2, 0, 1] ?m = Inr m' \<and>
         rows (data m') = [[5, 6], [1, 2], [3, 4]] \<and>
         map_option rows (train_input_data m') = Some [[5], [1]] \<and>
         map_option rows (train_output_data m') = Some [[6], [2]] \<and>
         map_option rows (val_input_data m') = Some [] \<and>
         map_option rows (val_output_data m') = Some [] \<and>
         map_option rows (test_input_data m') = Some [[3]] \<and>
         map_option rows (test_output_data m') = Some [[4]] \<and>
         floor_double_product 53 3 = 2 \<and>
         floor_double_product 56 3 = 0"
    unfolding n r fl by (auto simp: input_dim_def)
  with h show ?thesis by blast
qed

subsection \<open>Claim C3\<close>

text \<open>
  Claim C3. With \<open>train_end\<close> and \<open>val_end\<close> the two split indices, the index ranges
  \<open>[0, train_end)\<close>, \<open>[train_end, val_end)\<close> and \<open>[val_end, n)\<close> are pairwise disjoint
  and their union is \<open>[0, n)\<close>; the three partitions have exactly these sizes, which sum
  to \<open>n\<close>; the rows of the three partitions, features joined to targets again and taken
  in order, are the shuffled rows, which are the raw rows as a multiset.
\<close>

theorem setup_partitions_exhaustive:
  assumes "is_randperm (tensor_len (data m)) p"
  shows "\<exists>m' train_end val_end tr_in tr_out va_in va_out te_in te_out.
           RandomDataModule_setup stage p m = Inr m' \<and>
           int train_end = train_samples_idx (tensor_len (data m)) \<and>
           int val_end = val_samples_idx (tensor_len (data m)) \<and>
           train_end \<le> val_end \<and> val_end \<le> tensor_len (data m) \<and>
           {0..<train_end} \<inter> {train_end..<val_end} = {} \<and>
           {0..<train_end} \<inter> {val_end..<tensor_len (data m)} = {} \<and>
           {train_end..<val_end} \<inter> {val_end..<tensor_len (data m)} = {} \<and>
           {0..<train_end} \<union> {train_end..<val_end} \<union> {val_end..<tensor_len (data m)} =
             {0..<tensor_len (data m)} \<and>
           train_input_data m' = Some tr_in \<and> train_output_data m' = Some tr_out \<and>
           val_input_data m' = Some va_in \<and> val_output_data m' = Some va_out \<and>
           test_input_data m' = Some te_in \<and> test_output_data m' = Some te_out \<and>
           tensor_len tr_in = card {0..<train_end} \<and>
           tensor_len va_in = card {train_end..<val_end} \<and>
           tensor_len te_in = card {val_end..<tensor_len (data m)} \<and>
           tensor_len tr_in + tensor_len va_in + tensor_len te_in = tensor_len (data m) \<and>
           map2 (@) (rows tr_in) (rows tr_out) @ map2 (@) (rows va_in) (rows va_out) @
             map2 (@) (rows te_in) (rows te_out) = rows (data m') \<and>
           mset (rows (data m')) = mset (rows (data m))"
proof -
  let ?n = "tensor_len (data m)"
  let ?t = "(4 * ?n) div 5"
  let ?v = "?t + ?n div 10"
  let ?sh = "map ((!) (rows (data m))) p"
  obtain m' where m': "RandomDataModule_setup stage p m = Inr m'"
    and d: "data m' = (data m)\<lparr>rows := ?sh\<rparr>"
    and f: "train_input_data m' = Some \<lparr>width = min 1 (width (data m)),
              rows = map (take 1) (take ?t ?sh)\<rparr>"
      "train_output_data m' = Some \<lparr>width = width (data m) - 1,
              rows = map (drop 1) (take ?t ?sh)\<rparr>"
      "val_input_data m' = Some \<lparr>width = min 1 (width (data m)),
              rows = map (take 1) (drop ?t (take ?v ?sh))\<rparr>"
      "val_output_data m' = Some \<lparr>width = width (data m) - 1,
              rows = map (drop 1) (drop ?t (take ?v ?sh))\<rparr>"
      "test_input_data m' = Some \<lparr>width = min 1 (width (data m)),
              rows = map (take 1) (drop ?v ?sh)\<rparr>"
      "test_output_data m' = Some \<lparr>width = width (data m) - 1,
              rows = map (drop 1) (drop ?v ?sh)\<rparr>"
    using setup_fields [OF assms, of stage] by blast
  have len: "length ?sh = ?n"
    using randperm_length [OF assms] by simp
  have le: "?t \<le> ?v" "?v \<le> ?n"
    by simp_all
  have le': "?v \<le> length ?sh"
    using le(2) len by simp
  have idx: "int ?t = train_samples_idx ?n" "int ?v = val_samples_idx ?n"
    by (simp_all only: train_samples_idx_div val_samples_idx_div)
  note rp = range_partition [OF le]
  note ls = three_way_lengths [OF le(1) le', unfolded len]
  have cards: "tensor_len \<lparr>width = min 1 (width (data m)),
                 rows = map (take 1) (take ?t ?sh)\<rparr> = card {0..<?t}"
    "tensor_len \<lparr>width = min 1 (width (data m)),
                 rows = map (take 1) (drop ?t (take ?v ?sh))\<rparr> = card {?t..<?v}"
    "tensor_len \<lparr>width = min 1 (width (data m)),
                 rows = map (take 1) (drop ?v ?sh)\<rparr> = card {?v..<?n}"
    using ls by (simp_all add: tensor_len_def)
  have total: "card {0..<?t} + card {?t..<?v} + card {?v..<?n} = ?n"
    using le by simp
  have join: "map2 (@) (map (take 1) (take ?t ?sh)) (map (drop 1) (take ?t ?sh)) @
      map2 (@) (map (take 1) (drop ?t (take ?v ?sh))) (map (drop 1) (drop ?t (take ?v ?sh))) @
      map2 (@) (map (take 1) (drop ?v ?sh)) (map (drop 1) (drop ?v ?sh)) = ?sh"
    by (simp only: rejoin_columns three_way_join [OF le(1)])
  have ms: "mset ?sh = mset (rows (data m))"
    using shuffle_mset [of "rows (data m)" p] assms by (simp add: tensor_len_def)
  have rd: "rows (data m') = ?sh"
    by (simp add: d)
  show ?thesis
  proof (intro exI conjI)
    show "RandomDataModule_setup stage p m = Inr m'"
      by (rule m')
    show "int ?t = train_samples_idx ?n" "int ?v = val_samples_idx ?n"
      by (rule idx)+
    show "?t \<le> ?v" "?v \<le> ?n"
      by (rule le)+
    show "{0..<?t} \<inter> {?t..<?v} = {}" "{0..<?t} \<inter> {?v..<?n} = {}"
      "{?t..<?v} \<inter> {?v..<?n} = {}" "{0..<?t} \<union> {?t..<?v} \<union> {?v..<?n} = {0..<?n}"
      by (rule rp)+
    show "train_input_data m' = Some \<lparr>width = min 1 (width (data m)),
              rows = map (take 1) (take ?t ?sh)\<rparr>"
      "train_output_data m' = Some \<lparr>width = width (data m) - 1,
              rows = map (drop 1) (take ?t ?sh)\<rparr>"
      "val_input_data m' = Some \<lparr>width = min 1 (width (data m)),
              rows = map (take 1) (drop ?t (take ?v ?sh))\<rparr>"
      "val_output_data m' = Some \<lparr>width = width (data m) - 1,
              rows = map (drop 1) (drop ?t (take ?v ?sh))\<rparr>"
      "test_input_data m' = Some \<lparr>width = min 1 (width (data m)),
              rows = map (take 1) (drop ?v ?sh)\<rparr>"
      "test_output_data m' = Some \<lparr>width = width (data m) - 1,
              rows = map (drop 1) (drop ?v ?sh)\<rparr>"
      by (rule f)+
    show "tensor_len \<lparr>width = min 1 (width (data m)),
                 rows = map (take 1) (take ?t ?sh)\<rparr> = card {0..<?t}"
      "tensor_len \<lparr>width = min 1 (width (data m)),
                 rows = map (take 1) (drop ?t (take ?v ?sh))\<rparr> = card {?t..<?v}"
      "tensor_len \<lparr>width = min 1 (width (data m)),
                 rows = map (take 1) (drop ?v ?sh)\<rparr> = card {?v..<?n}"
      by (rule cards)+
    show "tensor_len \<lparr>width = min 1 (width (data m)),
                 rows = map (take 1) (take ?t ?sh)\<rparr> +
          tensor_len \<lparr>width = min 1 (width (data m)),
                 rows = map (take 1) (drop ?t (take ?v ?sh))\<rparr> +
          tensor_len \<lparr>width = min 1 (width (data m)),
                 rows = map (take 1) (drop ?v ?sh)\<rparr> = ?n"
      by (simp only: cards total)
    show "map2 (@) (rows \<lparr>width = min 1 (width (data m)),
                 rows = map (take 1) (take ?t ?sh)\<rparr>)
            (rows \<lparr>width = width (data m) - 1, rows = map (drop 1) (take ?t ?sh)\<rparr>) @
          map2 (@) (rows \<lparr>width = min 1 (width (data m)),
                 rows = map (take 1) (drop ?t (take ?v ?sh))\<rparr>)
            (rows \<lparr>width = width (data m) - 1,
                 rows = map (drop 1) (drop ?t (take ?v ?sh))\<rparr>) @
          map2 (@) (rows \<lparr>width = min 1 (width (data m)),
                 rows = map (take 1) (drop ?v ?sh)\<rparr>)
            (rows \<lparr>width = width (data m) - 1, rows = map (drop 1) (drop ?v ?sh)\<rparr>) =
          rows (data m')"
      by (simp only: tensor.select_convs join rd)
    show "mset (rows (data m')) = mset (rows (data m))"
      by (simp only: rd ms)
  qed
qed

theorem setup_partitions_exhaustive_witness:
  "is_randperm (tensor_len (data (RandomDataModule_init 4
       \<lparr>width = 2, rows = [[1, 2], [3, 4], [5, 6::int]]\<rparr>))) [2, 0, 1] \<and>
   (\<exists>m' tr_in va_in te_in.
       RandomDataModule_setup None [2, 0, 1]
         (RandomDataModule_init 4 \<lparr>width = 2, rows = [[1, 2], [3, 4], [5, 6::int]]\<rparr>) = Inr m' \<and>
       train_input_data m' = Some tr_in \<and> val_input_data m' = Some va_in \<and>
       test_input_data m' = Some te_in \<and>
       tensor_len tr_in + tensor_len va_in + tensor_len te_in = 3 \<and>
       mset (rows (data m')) = mset [[1, 2], [3, 4], [5, 6]])"
proof -
  let ?m = "RandomDataModule_init 4 \<lparr>width = 2, rows = [[1, 2], [3, 4], [5, 6::int]]\<rparr>"
  have n: "tensor_len (data ?m) = 3"
    by (simp add: RandomDataModule_init_def tensor_len_def)
  have r: "rows (data ?m) = [[1, 2], [3, 4], [5, 6]]"
    by (simp add: RandomDataModule_init_def)
  have u: "[0..<3] = [0, 1, 2]"
    by (simp add: upt_rec)
  have h: "is_randperm (tensor_len (data ?m)) [2, 0, 1]"
    unfolding n is_randperm_def u by simp
  from setup_partitions_exhaustive [OF h, of None]
  have "\<exists>m' tr_in va_in te_in.
       RandomDataModule_setup None [2, 0, 1] ?m = Inr m' \<and>
       train_input_data m' = Some tr_in \<and> val_input_data m' = Some va_in \<and>
       test_input_data m' = Some te_in \<and>
       tensor_len tr_in + tensor_len va_in + tensor_len te_in = 3 \<and>
       mset (rows (data m')) = mset [[1, 2], [3, 4], [5, 6]]"
    unfolding n r by blast
  with h show ?thesis by blast
qed

subsection \<open>Claim C4\<close>

text \<open>
  Claim C4. After \<^verbatim>\<open>setup\<close>, every index \<open>i\<close> below the length of the train,
  validation or test dataset returns the pair made of the first \<open>input_dim\<close> values and
  of the remaining values of one row of the raw data: the row the permutation puts at
  position \<open>i\<close>, \<open>train_end + i\<close> or \<open>val_end + i\<close>.
\<close>

theorem setup_referential_integrity:
  assumes "is_randperm (tensor_len (data m)) p"
  shows "\<exists>m' train_end val_end.
           RandomDataModule_setup stage p m = Inr m' \<and>
           int train_end = train_samples_idx (tensor_len (data m)) \<and>
           int val_end = val_samples_idx (tensor_len (data m)) \<and>
           VectorDataset_len \<lparr>input_data = train_input_data m',
                              output_data = train_output_data m'\<rparr> = Inr train_end \<and>
           VectorDataset_len \<lparr>input_data = val_input_data m',
                              output_data = val_output_data m'\<rparr> = Inr (val_end - train_end) \<and>
           VectorDataset_len \<lparr>input_data = test_input_data m',
                              output_data = test_output_data m'\<rparr> =
             Inr (tensor_len (data m) - val_end) \<and>
           (\<forall>i < train_end.
              p ! i < tensor_len (data m) \<and>
              VectorDataset_getitem \<lparr>input_data = train_input_data m',
                                     output_data = train_output_data m'\<rparr> (int i) =
                Inr (take (nat input_dim) (rows (data m) ! (p ! i)),
                     drop (nat input_dim) (rows (data m) ! (p ! i)))) \<and>
           (\<forall>i < val_end - train_end.
              p ! (train_end + i) < tensor_len (data m) \<and>
              VectorDataset_getitem \<lparr>input_data = val_input_data m',
                                     output_data = val_output_data m'\<rparr> (int i) =
                Inr (take (nat input_dim) (rows (data m) ! (p ! (train_end + i))),
                     drop (nat input_dim) (rows (data m) ! (p ! (train_end + i))))) \<and>
           (\<forall>i < tensor_len (data m) - val_end.
              p ! (val_end + i) < tensor_len (data m) \<and>
              VectorDataset_getitem \<lparr>input_data = test_input_data m',
                                     output_data = test_output_data m'\<rparr> (int i) =
                Inr (take (nat input_dim) (rows (data m) ! (p ! (val_end + i))),
                     drop (nat input_dim) (rows (data m) ! (p ! (val_end + i)))))"
proof -
  let ?n = "tensor_len (data m)"
  let ?t = "(4 * ?n) div 5"
  let ?v = "?t + ?n div 10"
  let ?sh = "map ((!) (rows (data m))) p"
  obtain m' where m': "RandomDataModule_setup stage p m = Inr m'"
    and f: "train_input_data m' = Some \<lparr>width = min 1 (width (data m)),
              rows = map (take 1) (take ?t ?sh)\<rparr>"
      "train_output_data m' = Some \<lparr>width = width (data m) - 1,
              rows = map (drop 1) (take ?t ?sh)\<rparr>"
      "val_input_data m' = Some \<lparr>width = min 1 (width (data m)),
              rows = map (take 1) (drop ?t (take ?v ?sh))\<rparr>"
      "val_output_data m' = Some \<lparr>width = width (data m) - 1,
              rows = map (drop 1) (drop ?t (take ?v ?sh))\<rparr>"
      "test_input_data m' = Some \<lparr>width = min 1 (width (data m)),
              rows = map (take 1) (drop ?v ?sh)\<rparr>"
      "test_output_data m' = Some \<lparr>width = width (data m) - 1,
              rows = map (drop 1) (drop ?v ?sh)\<rparr>"
    using setup_fields [OF assms, of stage] by blast
  have lp: "length p = ?n"
    by (rule randperm_length [OF assms])
  have len: "length ?sh = ?n"
    using lp by simp
  have le: "?t \<le> ?v" "?v \<le> ?n"
    by simp_all
  have le': "?v \<le> length ?sh"
    using le(2) len by simp
  note ls = three_way_lengths [OF le(1) le', unfolded len]
  have mem: "p ! j < ?n" if "j < ?n" for j
    using randperm_set [OF assms] that lp by (metis atLeastLessThan_iff nth_mem)
  have d: "nat input_dim = 1"
    by (simp add: input_dim_def)
  have tr: "take ?t ?sh ! i = rows (data m) ! (p ! i)" if "i < ?t" for i
    using that le lp by simp
  have va: "drop ?t (take ?v ?sh) ! i = rows (data m) ! (p ! (?t + i))" if "i < ?v - ?t" for i
    using that le lp by simp
  have te: "drop ?v ?sh ! i = rows (data m) ! (p ! (?v + i))" if "i < ?n - ?v" for i
    using that le lp by simp
  show ?thesis
  proof (intro exI conjI allI impI)
    show "RandomDataModule_setup stage p m = Inr m'"
      by (rule m')
    show "int ?t = train_samples_idx ?n" "int ?v = val_samples_idx ?n"
      by (simp_all only: train_samples_idx_div val_samples_idx_div)
    show "VectorDataset_len \<lparr>input_data = train_input_data m',
            output_data = train_output_data m'\<rparr> = Inr ?t"
      unfolding f len_columns by (simp only: ls)
    show "VectorDataset_len \<lparr>input_data = val_input_data m',
            output_data = val_output_data m'\<rparr> = Inr (?v - ?t)"
      unfolding f len_columns by (simp only: ls)
    show "VectorDataset_len \<lparr>input_data = test_input_data m',
            output_data = test_output_data m'\<rparr> = Inr (?n - ?v)"
      unfolding f len_columns by (simp only: ls)
  next
    fix i assume i: "i < ?t"
    then show "p ! i < ?n"
      using le mem [of i] by linarith
    have "i < length (take ?t ?sh)"
      using i ls(1) by simp
    from getitem_columns [OF this] tr [OF i]
    show "VectorDataset_getitem \<lparr>input_data = train_input_data m',
            output_data = train_output_data m'\<rparr> (int i) =
          Inr (take (nat input_dim) (rows (data m) ! (p ! i)),
               drop (nat input_dim) (rows (data m) ! (p ! i)))"
      unfolding f d by simp
  next
    fix i assume i: "i < ?v - ?t"
    then show "p ! (?t + i) < ?n"
      using le mem [of "?t + i"] by linarith
    have "i < length (drop ?t (take ?v ?sh))"
      using i ls(2) by simp
    from getitem_columns [OF this] va [OF i]
    show "VectorDataset_getitem \<lparr>input_data = val_input_data m',
            output_data = val_output_data m'\<rparr> (int i) =
          Inr (take (nat input_dim) (rows (data m) ! (p ! (?t + i))),
               drop (nat input_dim) (rows (data m) ! (p ! (?t + i))))"
      unfolding f d by simp
  next
    fix i assume i: "i < ?n - ?v"
    then show "p ! (?v + i) < ?n"
      using le mem [of "?v + i"] by linarith
    have "i < length (drop ?v ?sh)"
      using i ls(3) by simp
    from getitem_columns [OF this] te [OF i]
    show "VectorDataset_getitem \<lparr>input_data = test_input_data m',
            output_data = test_output_data m'\<rparr> (int i) =
          Inr (take (nat input_dim) (rows (data m) ! (p ! (?v + i))),
               drop (nat input_dim) (rows (data m) ! (p ! (?v + i))))"
      unfolding f d by simp
  qed
qed

theorem setup_referential_integrity_witness:
  "is_randperm (tensor_len (data (RandomDataModule_init 4
       \<lparr>width = 3, rows = [[0, 10, 20], [1, 11, 21], [2, 12, 22], [3, 13, 23],
          [4, 14, 24], [5, 15, 25], [6, 16, 26], [7, 17, 27], [8, 18, 28], [9, 19, 29::nat]]\<rparr>)))
     [3, 1, 4, 0, 5, 9, 2, 6, 8, 7] \<and>
   (\<exists>m'. RandomDataModule_setup None [3, 1, 4, 0, 5, 9, 2, 6, 8, 7]
           (RandomDataModule_init 4
       \<lparr>width = 3, rows = [[0, 10, 20], [1, 11, 21], [2, 12, 22], [3, 13, 23],
          [4, 14, 24], [5, 15, 25], [6, 16, 26], [7, 17, 27], [8, 18, 28], [9, 19, 29::nat]]\<rparr>) = Inr m' \<and>
         VectorDataset_getitem \<lparr>input_data = train_input_data m',
                                output_data = train_output_data m'\<rparr> 0 = Inr ([3], [13, 23]) \<and>
         VectorDataset_getitem \<lparr>input_data = val_input_data m',
                                output_data = val_output_data m'\<rparr> 0 = Inr ([8], [18, 28]) \<and>
         VectorDataset_getitem \<lparr>input_data = test_input_data m',
                                output_data = test_output_data m'\<rparr> 0 = Inr ([7], [17, 27]))"
proof -
  let ?d = "\<lparr>width = 3, rows = [[0, 10, 20], [1, 11, 21], [2, 12, 22], [3, 13, 23],
          [4, 14, 24], [5, 15, 25], [6, 16, 26], [7, 17, 27], [8, 18, 28], [9, 19, 29::nat]]\<rparr>"
  let ?m = "RandomDataModule_init 4 ?d"
  let ?p = "[3, 1, 4, 0, 5, 9, 2, 6, 8, 7] :: nat list"
  have n: "tensor_len (data ?m) = 10"
    by (simp add: RandomDataModule_init_def tensor_len_def)
  have r: "rows (data ?m) = rows ?d"
    by (simp add: RandomDataModule_init_def)
  have u: "[0..<10] = [0, 1, 2, 3, 4, 5, 6, 7, 8, 9]"
    by (simp add: upt_rec)
  have h: "is_randperm (tensor_len (data ?m)) ?p"
    unfolding n is_randperm_def u by simp
  have idx: "train_samples_idx 10 = 8" "val_samples_idx 10 = 9"
    by (simp_all add: train_samples_idx_div val_samples_idx_div)
  from setup_referential_integrity [OF h, of None] obtain m' train_end val_end where
    s: "RandomDataModule_setup None ?p ?m = Inr m'"
    and t: "int train_end = train_samples_idx (tensor_len (data ?m))"
    and v: "int val_end = val_samples_idx (tensor_len (data ?m))"
    and a: "\<forall>i < train_end. ?p ! i < tensor_len (data ?m) \<and>
              VectorDataset_getitem \<lparr>input_data = train_input_data m',
                                     output_data = train_output_data m'\<rparr> (int i) =
                Inr (take (nat input_dim) (rows (data ?m) ! (?p ! i)),
                     drop (nat input_dim) (rows (data ?m) ! (?p ! i)))"
    and b: "\<forall>i < val_end - train_end. ?p ! (train_end + i) < tensor_len (data ?m) \<and>
              VectorDataset_getitem \<lparr>input_data = val_input_data m',
                                     output_data = val_output_data m'\<rparr> (int i) =
                Inr (take (nat input_dim) (rows (data ?m) ! (?p ! (train_end + i))),
                     drop (nat input_dim) (rows (data ?m) ! (?p ! (train_end + i))))"
    and c: "\<forall>i < tensor_len (data ?m) - val_end. ?p ! (val_end + i) < tensor_len (data ?m) \<and>
              VectorDataset_getitem \<lparr>input_data = test_input_data m',
                                     output_data = test_output_data m'\<rparr> (int i) =
                Inr (take (nat input_dim) (rows (data ?m) ! (?p ! (val_end + i))),
                     drop (nat input_dim) (rows (data ?m) ! (?p ! (val_end + i))))"
    by blast
  have te: "train_end = 8" and ve: "val_end = 9"
    using t v unfolding n idx by simp_all
  have "VectorDataset_getitem \<lparr>input_data = train_input_data m',
          output_data = train_output_data m'\<rparr> 0 = Inr ([3], [13, 23])"
    using a [rule_format, of 0] unfolding te r by (simp add: input_dim_def)
  moreover have "VectorDataset_getitem \<lparr>input_data = val_input_data m',
          output_data = val_output_data m'\<rparr> 0 = Inr ([8], [18, 28])"
    using b [rule_format, of 0] unfolding te ve r by (simp add: input_dim_def)
  moreover have "VectorDataset_getitem \<lparr>input_data = test_input_data m',
          output_data = test_output_data m'\<rparr> 0 = Inr ([7], [17, 27])"
    using c [rule_format, of 0] unfolding n ve r by (simp add: input_dim_def)
  ultimately show ?thesis
    using h s by blast
qed

subsection \<open>Claim C5\<close>

text \<open>
  Claim C5 as stated fails on two rows: the test partition has one row, while
  \<open>total_rows - train_end - val_end\<close> is \<open>2 - 1 - 1 = 0\<close>.
\<close>

theorem test_size_formula_counterexample:
  "RandomDataModule_setup None [1, 0]
     (RandomDataModule_init 4 \<lparr>width = 2, rows = [[1, 2], [3, 4::int]]\<rparr>) =
   Inr \<lparr>data_num_workers = 4,
        data = \<lparr>width = 2, rows = [[3, 4], [1, 2]]\<rparr>,
        batch_size = 2,
        train_input_data = Some \<lparr>width = 1, rows = [[3]]\<rparr>,
        train_output_data = Some \<lparr>width = 1, rows = [[4]]\<rparr>,
        val_input_data = Some \<lparr>width = 1, rows = []\<rparr>,
        val_output_data = Some \<lparr>width = 1, rows = []\<rparr>,
        test_input_data = Some \<lparr>width = 1, rows = [[1]]\<rparr>,
        test_output_data = Some \<lparr>width = 1, rows = [[2]]\<rparr>\<rparr> \<and>
   int (tensor_len \<lparr>width = 1, rows = [[1::int]]\<rparr>) \<noteq>
     int 2 - train_samples_idx 2 - val_samples_idx 2"
  by (simp add: eval_defs)

text \<open>
  Claim C5, amended. The test partition is the remainder: its size is
  \<open>total_rows - val_end\<close>, which is \<open>total_rows\<close> less the train size and the
  validation size, that is \<open>total_rows - \<lfloor>train_pct * total_rows\<rfloor> -
  \<lfloor>val_pct * total_rows\<rfloor>\<close>; so it is at least \<open>(1 - train_pct - val_pct) * total_rows\<close>,
  and what flooring takes from the other two partitions goes to it.
\<close>

theorem test_size_is_remainder:
  assumes "is_randperm (tensor_len (data m)) p"
  shows "\<exists>m' train_end val_end tr_in va_in te_in.
           RandomDataModule_setup stage p m = Inr m' \<and>
           int train_end = train_samples_idx (tensor_len (data m)) \<and>
           int val_end = val_samples_idx (tensor_len (data m)) \<and>
           train_input_data m' = Some tr_in \<and>
           val_input_data m' = Some va_in \<and>
           test_input_data m' = Some te_in \<and>
           tensor_len tr_in = train_end \<and>
           tensor_len va_in = val_end - train_end \<and>
           int (tensor_len te_in) = int (tensor_len (data m)) - int val_end \<and>
           int (tensor_len te_in) =
             int (tensor_len (data m)) - int (tensor_len tr_in) - int (tensor_len va_in) \<and>
           int (tensor_len te_in) =
             int (tensor_len (data m)) - \<lfloor>train_pct * of_nat (tensor_len (data m))\<rfloor> -
               \<lfloor>val_pct * of_nat (tensor_len (data m))\<rfloor> \<and>
           (1 - train_pct - val_pct) * of_nat (tensor_len (data m)) \<le>
             of_nat (tensor_len te_in)"
proof -
  let ?n = "tensor_len (data m)"
  let ?t = "(4 * ?n) div 5"
  let ?v = "?t + ?n div 10"
  let ?sh = "map ((!) (rows (data m))) p"
  let ?tr = "\<lparr>width = min 1 (width (data m)), rows = map (take 1) (take ?t ?sh)\<rparr>"
  let ?va = "\<lparr>width = min 1 (width (data m)), rows = map (take 1) (drop ?t (take ?v ?sh))\<rparr>"
  let ?te = "\<lparr>width = min 1 (width (data m)), rows = map (take 1) (drop ?v ?sh)\<rparr>"
  obtain m' where m': "RandomDataModule_setup stage p m = Inr m'"
    and f: "train_input_data m' = Some ?tr" "val_input_data m' = Some ?va"
      "test_input_data m' = Some ?te"
    using setup_fields [OF assms, of stage] by blast
  have len: "length ?sh = ?n"
    using randperm_length [OF assms] by simp
  have le: "?t \<le> ?v" "?v \<le> ?n"
    by simp_all
  have le': "?v \<le> length ?sh"
    using le(2) len by simp
  note ls = three_way_lengths [OF le(1) le', unfolded len]
  have tr: "tensor_len ?tr = ?t" and va: "tensor_len ?va = ?v - ?t"
    and te: "tensor_len ?te = ?n - ?v"
    using ls by (simp_all add: tensor_len_def)
  have te1: "int (tensor_len ?te) = int ?n - int ?v"
    unfolding te using le(2) by (rule of_nat_diff)
  have te2: "int (tensor_len ?te) = int ?n - int (tensor_len ?tr) - int (tensor_len ?va)"
    unfolding te tr va using le by linarith
  have te3: "int (tensor_len ?te) =
      int ?n - \<lfloor>train_pct * of_nat ?n\<rfloor> - \<lfloor>val_pct * of_nat ?n\<rfloor>"
    unfolding te1 train_floor_div val_floor_div by simp
  have "of_int \<lfloor>train_pct * of_nat ?n\<rfloor> + of_int \<lfloor>val_pct * of_nat ?n\<rfloor> \<le>
      train_pct * of_nat ?n + val_pct * of_nat ?n"
    by (intro add_mono of_int_floor_le)
  then have "(1 - train_pct - val_pct) * of_nat ?n \<le>
      of_int (int ?n - \<lfloor>train_pct * of_nat ?n\<rfloor> - \<lfloor>val_pct * of_nat ?n\<rfloor>)"
    by (simp add: algebra_simps)
  then have te4: "(1 - train_pct - val_pct) * of_nat ?n \<le> of_nat (tensor_len ?te)"
    unfolding te3 [symmetric] by simp
  show ?thesis
  proof (intro exI conjI)
    show "RandomDataModule_setup stage p m = Inr m'"
      by (rule m')
    show "int ?t = train_samples_idx ?n" "int ?v = val_samples_idx ?n"
      by (simp_all only: train_samples_idx_div val_samples_idx_div)
    show "train_input_data m' = Some ?tr" "val_input_data m' = Some ?va"
      "test_input_data m' = Some ?te"
      by (rule f)+
    show "tensor_len ?tr = ?t" "tensor_len ?va = ?v - ?t"
      by (rule tr, rule va)
    show "int (tensor_len ?te) = int ?n - int ?v"
      by (rule te1)
    show "int (tensor_len ?te) = int ?n - int (tensor_len ?tr) - int (tensor_len ?va)"
      by (rule te2)
    show "int (tensor_len ?te) =
      int ?n - \<lfloor>train_pct * of_nat ?n\<rfloor> - \<lfloor>val_pct * of_nat ?n\<rfloor>"
      by (rule te3)
    show "(1 - train_pct - val_pct) * of_nat ?n \<le> of_nat (tensor_len ?te)"
      by (rule te4)
  qed
qed

theorem test_size_is_remainder_witness:
  "is_randperm (tensor_len (data (RandomDataModule_init 4
       \<lparr>width = 2, rows = [[1, 2], [3, 4], [5, 6::int]]\<rparr>))) [2, 0, 1] \<and>
   (\<exists>m' te_in.
       RandomDataModule_setup None [2, 0, 1]
         (RandomDataModule_init 4 \<lparr>width = 2, rows = [[1, 2], [3, 4], [5, 6::int]]\<rparr>) = Inr m' \<and>
       test_input_data m' = Some te_in \<and>
       int (tensor_len te_in) = 3 - 2 - 0)"
proof -
  let ?m = "RandomDataModule_init 4 \<lparr>width = 2, rows = [[1, 2], [3, 4], [5, 6::int]]\<rparr>"
  have n: "tensor_len (data ?m) = 3"
    by (simp add: RandomDataModule_init_def tensor_len_def)
  have u: "[0..<3] = [0, 1, 2]"
    by (simp add: upt_rec)
  have h: "is_randperm (tensor_len (data ?m)) [2, 0, 1]"
    unfolding n is_randperm_def u by simp
  have fl: "\<lfloor>train_pct * of_nat 3\<rfloor> = 2" "\<lfloor>val_pct * of_nat 3\<rfloor> = 0"
    using train_floor_div [of 3] val_floor_div [of 3] by simp_all
  from test_size_is_remainder [OF h, of None]
  have "\<exists>m' te_in.
       RandomDataModule_setup None [2, 0, 1] ?m = Inr m' \<and>
       test_input_data m' = Some te_in \<and>
       int (tensor_len te_in) = 3 - 2 - 0"
    unfolding n fl by (simp only: of_nat_numeral) blast
  with h show ?thesis by blast
qed

subsection \<open>Claim C6\<close>

text \<open>
  Claim C6 as stated fails: on a fresh module over two rows the train accessor returns
  a loader, over a dataset whose two fields are \<^verbatim>\<open>None\<close>.
\<close>

theorem loader_before_setup_counterexample:
  "train_dataloader (RandomDataModule_init 4 \<lparr>width = 2, rows = [[1, 2], [3, 4::int]]\<rparr>) =
   Inr \<lparr>dl_dataset = \<lparr>input_data = None, output_data = None\<rparr>,
        dl_num_workers = 4,
        dl_batch_size = 2\<rparr>"
  by (simp add: train_dataloader_def RandomDataModule_init_def DataLoader_new_def
      tensor_len_def)

text \<open>
  Claim C6, amended. Before \<^verbatim>\<open>setup\<close> the six partition attributes are \<^verbatim>\<open>None\<close>, and
  for a data set with at least one row and a worker count that is not negative each
  loader accessor returns a loader over a dataset with both fields \<^verbatim>\<open>None\<close>. No
  accessor raises; the failure comes when the dataset is used: its length, any of its
  items and the loader's batch count raise \<^verbatim>\<open>TypeError\<close>.
\<close>

theorem loaders_before_setup:
  fixes d :: "'a tensor"
  assumes "0 < tensor_len d" and "0 \<le> hparams"
  shows "train_input_data (RandomDataModule_init hparams d) = None \<and>
         train_output_data (RandomDataModule_init hparams d) = None \<and>
         val_input_data (RandomDataModule_init hparams d) = None \<and>
         val_output_data (RandomDataModule_init hparams d) = None \<and>
         test_input_data (RandomDataModule_init hparams d) = None \<and>
         test_output_data (RandomDataModule_init hparams d) = None \<and>
         train_dataloader (RandomDataModule_init hparams d) =
           Inr \<lparr>dl_dataset = \<lparr>input_data = None, output_data = None\<rparr>,
                dl_num_workers = hparams, dl_batch_size = tensor_len d\<rparr> \<and>
         val_dataloader (RandomDataModule_init hparams d) =
           Inr \<lparr>dl_dataset = \<lparr>input_data = None, output_data = None\<rparr>,
                dl_num_workers = hparams, dl_batch_size = tensor_len d\<rparr> \<and>
         test_dataloader (RandomDataModule_init hparams d) =
           Inr \<lparr>dl_dataset = \<lparr>input_data = None, output_data = None\<rparr>,
                dl_num_workers = hparams, dl_batch_size = tensor_len d\<rparr> \<and>
         VectorDataset_len \<lparr>input_data = None :: 'a tensor option, output_data = None\<rparr> =
           Inl TypeError \<and>
         VectorDataset_getitem \<lparr>input_data = None :: 'a tensor option, output_data = None\<rparr>
           idx = Inl TypeError \<and>
         DataLoader_len \<lparr>dl_dataset = \<lparr>input_data = None, output_data = None\<rparr>,
                          dl_num_workers = hparams, dl_batch_size = tensor_len d\<rparr> =
           Inl TypeError"
  using assms
  by (simp add: RandomDataModule_init_def train_dataloader_def val_dataloader_def
      test_dataloader_def DataLoader_new_def VectorDataset_len_def VectorDataset_getitem_def
      DataLoader_len_def)

theorem loaders_before_setup_witness:
  "0 < tensor_len \<lparr>width = 2, rows = [[1, 2], [3, 4::int]]\<rparr> \<and> (0::int) \<le> 4 \<and>
   train_dataloader (RandomDataModule_init 4 \<lparr>width = 2, rows = [[1, 2], [3, 4::int]]\<rparr>) =
     Inr \<lparr>dl_dataset = \<lparr>input_data = None, output_data = None\<rparr>,
          dl_num_workers = 4, dl_batch_size = 2\<rparr> \<and>
   VectorDataset_len \<lparr>input_data = None :: int tensor option, output_data = None\<rparr> =
     Inl TypeError \<and>
   VectorDataset_getitem \<lparr>input_data = None :: int tensor option, output_data = None\<rparr> 0 =
     Inl TypeError"
proof -
  have h1: "0 < tensor_len \<lparr>width = 2, rows = [[1, 2], [3, 4::int]]\<rparr>"
    by (simp add: tensor_len_def)
  have h2: "(0::int) \<le> 4"
    by simp
  have n: "tensor_len \<lparr>width = 2, rows = [[1, 2], [3, 4::int]]\<rparr> = 2"
    by (simp add: tensor_len_def)
  note t = loaders_before_setup [OF h1 h2, of 0, unfolded n]
  from h1 h2 t show ?thesis
    by blast
qed

subsection \<open>Claim C7\<close>

text \<open>
  Claim C7 as stated fails at the negative index \<open>-1\<close>: the dataset returns its last
  pair.
\<close>

theorem getitem_negative_counterexample:
  "VectorDataset_getitem
     \<lparr>input_data = Some \<lparr>width = 1, rows = [[1], [3::int]]\<rparr>,
      output_data = Some \<lparr>width = 1, rows = [[2], [4]]\<rparr>\<rparr> (- 1) = Inr ([3], [4])"
  by (simp add: VectorDataset_getitem_def tensor_getitem_def tensor_len_def)

text \<open>
  Claim C7, amended. For a dataset whose feature and target tensors have the same
  number \<open>n\<close> of rows, the length is \<open>n\<close>, and \<open>get(index)\<close> returns the pair at
  \<open>index\<close> when \<open>0 \<le> index < n\<close>, the pair at \<open>index + n\<close> when \<open>-n \<le> index < 0\<close>;
  for every other index it fails: with \<^verbatim>\<open>ValueError\<close> (an overflow) when the index is
  outside the signed 64-bit range \<open>[-2 ^ 63, 2 ^ 63)\<close>, with \<^verbatim>\<open>IndexError\<close> otherwise.
\<close>

theorem getitem_in_and_out_of_range:
  assumes "input_data ds = Some a" and "output_data ds = Some b"
    and "tensor_len a = tensor_len b"
  shows "VectorDataset_len ds = Inr (tensor_len a) \<and>
         VectorDataset_getitem ds idx =
           (if 0 \<le> idx \<and> idx < int (tensor_len a)
            then Inr (rows a ! nat idx, rows b ! nat idx)
            else if - int (tensor_len a) \<le> idx \<and> idx < 0
            then Inr (rows a ! nat (idx + int (tensor_len a)),
                      rows b ! nat (idx + int (tensor_len a)))
            else if idx < - (2 ^ 63) \<or> 2 ^ 63 \<le> idx
            then Inl ValueError
            else Inl IndexError)"
  using assms
  by (auto simp: VectorDataset_len_def VectorDataset_getitem_def tensor_getitem_def Let_def)

theorem getitem_in_and_out_of_range_witness:
  "input_data \<lparr>input_data = Some \<lparr>width = 1, rows = [[1], [3::int]]\<rparr>,
               output_data = Some \<lparr>width = 1, rows = [[2], [4]]\<rparr>\<rparr> =
     Some \<lparr>width = 1, rows = [[1], [3]]\<rparr> \<and>
   output_data \<lparr>input_data = Some \<lparr>width = 1, rows = [[1], [3::int]]\<rparr>,
                output_data = Some \<lparr>width = 1, rows = [[2], [4]]\<rparr>\<rparr> =
     Some \<lparr>width = 1, rows = [[2], [4]]\<rparr> \<and>
   tensor_len \<lparr>width = 1, rows = [[1], [3::int]]\<rparr> =
     tensor_len \<lparr>width = 1, rows = [[2], [4::int]]\<rparr> \<and>
   VectorDataset_getitem
     \<lparr>input_data = Some \<lparr>width = 1, rows = [[1], [3::int]]\<rparr>,
      output_data = Some \<lparr>width = 1, rows = [[2], [4]]\<rparr>\<rparr> 1 = Inr ([3], [4]) \<and>
   VectorDataset_getitem
     \<lparr>input_data = Some \<lparr>width = 1, rows = [[1], [3::int]]\<rparr>,
      output_data = Some \<lparr>width = 1, rows = [[2], [4]]\<rparr>\<rparr> (- 2) = Inr ([1], [2]) \<and>
   VectorDataset_getitem
     \<lparr>input_data = Some \<lparr>width = 1, rows = [[1], [3::int]]\<rparr>,
      output_data = Some \<lparr>width = 1, rows = [[2], [4]]\<rparr>\<rparr> 2 = Inl IndexError \<and>
   VectorDataset_getitem
     \<lparr>input_data = Some \<lparr>width = 1, rows = [[1], [3::int]]\<rparr>,
      output_data = Some \<lparr>width = 1, rows = [[2], [4]]\<rparr>\<rparr> (- 3) = Inl IndexError \<and>
   VectorDataset_getitem
     \<lparr>input_data = Some \<lparr>width = 1, rows = [[1], [3::int]]\<rparr>,
      output_data = Some \<lparr>width = 1, rows = [[2], [4]]\<rparr>\<rparr> (2 ^ 63 - 1) = Inl IndexError \<and>
   VectorDataset_getitem
     \<lparr>input_data = Some \<lparr>width = 1, rows = [[1], [3::int]]\<rparr>,
      output_data = Some \<lparr>width = 1, rows = [[2], [4]]\<rparr>\<rparr> (2 ^ 63) = Inl ValueError \<and>
   VectorDataset_getitem
     \<lparr>input_data = Some \<lparr>width = 1, rows = [[1], [3::int]]\<rparr>,
      output_data = Some \<lparr>width = 1, rows = [[2], [4]]\<rparr>\<rparr> (- (2 ^ 63)) = Inl IndexError \<and>
   VectorDataset_getitem
     \<lparr>input_data = Some \<lparr>width = 1, rows = [[1], [3::int]]\<rparr>,
      output_data = Some \<lparr>width = 1, rows = [[2], [4]]\<rparr>\<rparr> (- (2 ^ 63) - 1) = Inl ValueError"
proof -
  let ?a = "\<lparr>width = 1, rows = [[1], [3::int]]\<rparr>"
  let ?b = "\<lparr>width = 1, rows = [[2], [4::int]]\<rparr>"
  let ?ds = "\<lparr>input_data = Some ?a, output_data = Some ?b\<rparr>"
  have h1: "input_data ?ds = Some ?a" and h2: "output_data ?ds = Some ?b"
    by simp_all
  have h3: "tensor_len ?a = tensor_len ?b"
    by (simp add: tensor_len_def)
  have n: "tensor_len ?a = 2"
    by (simp add: tensor_len_def)
  note g = getitem_in_and_out_of_range [OF h1 h2 h3, unfolded n, THEN conjunct2]
  have "VectorDataset_getitem ?ds 1 = Inr ([3], [4])"
    "VectorDataset_getitem ?ds (- 2) = Inr ([1], [2])"
    "VectorDataset_getitem ?ds 2 = Inl IndexError"
    "VectorDataset_getitem ?ds (- 3) = Inl IndexError"
    "VectorDataset_getitem ?ds (2 ^ 63 - 1) = Inl IndexError"
    "VectorDataset_getitem ?ds (2 ^ 63) = Inl ValueError"
    "VectorDataset_getitem ?ds (- (2 ^ 63)) = Inl IndexError"
    "VectorDataset_getitem ?ds (- (2 ^ 63) - 1) = Inl ValueError"
    unfolding g by simp_all
  with h1 h2 h3 show ?thesis
    by blast
qed

subsection \<open>Claim C8\<close>

text \<open>
  Claim C8 as stated fails on rows of width 1, where \<open>input_dim \<ge> row_width\<close>: the
  column split returns the one column as features and a target tensor of width 0.
\<close>

theorem split_no_targets_counterexample:
  "split_input_output_data \<lparr>width = 1, rows = [[5], [7::int]]\<rparr> =
     (\<lparr>width = 1, rows = [[5], [7]]\<rparr>, \<lparr>width = 0, rows = [[], []]\<rparr>)"
  by (simp add: split_input_output_data_eq)

text \<open>
  Claim C8, amended. The column split has no shape check and returns for every
  two-dimensional tensor: the features are the first \<open>input_dim\<close> columns of each row
  (all of them when the rows are narrower), the targets are the remaining columns (none
  when \<open>input_dim \<ge> row_width\<close>), and the feature and target row counts are both the row
  count of the tensor that was split, so they never differ. Both results are well
  formed when the tensor is.
\<close>

theorem split_total:
  "tensor_len (fst (split_input_output_data d)) = tensor_len d \<and>
   tensor_len (snd (split_input_output_data d)) = tensor_len d \<and>
   rows (fst (split_input_output_data d)) = map (take (nat input_dim)) (rows d) \<and>
   rows (snd (split_input_output_data d)) = map (drop (nat input_dim)) (rows d) \<and>
   width (fst (split_input_output_data d)) = min (nat input_dim) (width d) \<and>
   width (snd (split_input_output_data d)) = width d - nat input_dim \<and>
   (wf_tensor d \<longrightarrow>
      wf_tensor (fst (split_input_output_data d)) \<and>
      wf_tensor (snd (split_input_output_data d)))"
  by (auto simp: split_input_output_data_eq tensor_len_def input_dim_def wf_tensor_def
      list_all_iff)

theorem split_total_witness:
  "wf_tensor \<lparr>width = 1, rows = [[5], [7::int]]\<rparr> \<and>
   wf_tensor (fst (split_input_output_data \<lparr>width = 1, rows = [[5], [7::int]]\<rparr>)) \<and>
   wf_tensor (snd (split_input_output_data \<lparr>width = 1, rows = [[5], [7::int]]\<rparr>)) \<and>
   tensor_len (fst (split_input_output_data \<lparr>width = 1, rows = [[5], [7::int]]\<rparr>)) = 2 \<and>
   tensor_len (snd (split_input_output_data \<lparr>width = 1, rows = [[5], [7::int]]\<rparr>)) = 2 \<and>
   width (snd (split_input_output_data \<lparr>width = 1, rows = [[5], [7::int]]\<rparr>)) = 0"
proof -
  have h: "wf_tensor \<lparr>width = 1, rows = [[5], [7::int]]\<rparr>"
    by (simp add: wf_tensor_def)
  have n: "tensor_len \<lparr>width = 1, rows = [[5], [7::int]]\<rparr> = 2"
    by (simp add: tensor_len_def)
  from split_total [of "\<lparr>width = 1, rows = [[5], [7::int]]\<rparr>"] h show ?thesis
    unfolding n by (simp add: input_dim_def)
qed

subsection \<open>Claim C9\<close>

text \<open>
  Claim C9 as stated fails on two rows with the permutation \<open>[1, 0]\<close> drawn both
  times: \<^verbatim>\<open>setup\<close> stores the shuffled rows in \<^verbatim>\<open>self.data\<close>, so the second call
  permutes them again, and the train partition holds row \<open>[3, 4]\<close> after the first call
  and row \<open>[1, 2]\<close> after the second.
\<close>

theorem setup_twice_counterexample:
  "RandomDataModule_setup None [1, 0]
     (RandomDataModule_init 4 \<lparr>width = 2, rows = [[1, 2], [3, 4::int]]\<rparr>) =
   Inr \<lparr>data_num_workers = 4,
        data = \<lparr>width = 2, rows = [[3, 4], [1, 2]]\<rparr>,
        batch_size = 2,
        train_input_data = Some \<lparr>width = 1, rows = [[3]]\<rparr>,
        train_output_data = Some \<lparr>width = 1, rows = [[4]]\<rparr>,
        val_input_data = Some \<lparr>width = 1, rows = []\<rparr>,
        val_output_data = Some \<lparr>width = 1, rows = []\<rparr>,
        test_input_data = Some \<lparr>width = 1, rows = [[1]]\<rparr>,
        test_output_data = Some \<lparr>width = 1, rows = [[2]]\<rparr>\<rparr> \<and>
   RandomDataModule_setup None [1, 0]
     \<lparr>data_num_workers = 4,
      data = \<lparr>width = 2, rows = [[3, 4], [1, 2::int]]\<rparr>,
      batch_size = 2,
      train_input_data = Some \<lparr>width = 1, rows = [[3]]\<rparr>,
      train_output_data = Some \<lparr>width = 1, rows = [[4]]\<rparr>,
      val_input_data = Some \<lparr>width = 1, rows = []\<rparr>,
      val_output_data = Some \<lparr>width = 1, rows = []\<rparr>,
      test_input_data = Some \<lparr>width = 1, rows = [[1]]\<rparr>,
      test_output_data = Some \<lparr>width = 1, rows = [[2]]\<rparr>\<rparr> =
   Inr \<lparr>data_num_workers = 4,
        data = \<lparr>width = 2, rows = [[1, 2], [3, 4]]\<rparr>,
        batch_size = 2,
        train_input_data = Some \<lparr>width = 1, rows = [[1]]\<rparr>,
        train_output_data = Some \<lparr>width = 1, rows = [[2]]\<rparr>,
        val_input_data = Some \<lparr>width = 1, rows = []\<rparr>,
        val_output_data = Some \<lparr>width = 1, rows = []\<rparr>,
        test_input_data = Some \<lparr>width = 1, rows = [[3]]\<rparr>,
        test_output_data = Some \<lparr>width = 1, rows = [[4]]\<rparr>\<rparr> \<and>
   Some \<lparr>width = 1, rows = [[3::int]]\<rparr> \<noteq> Some \<lparr>width = 1, rows = [[1]]\<rparr>"
  by (simp add: eval_defs)

text \<open>
  Claim C9, amended. From one module state and one permutation \<^verbatim>\<open>setup\<close> always
  gives the same result, whatever the stage. A second call on the module the first call
  left, with the same permutation drawn, permutes the already shuffled rows: its data
  are the raw rows permuted twice, and its six partition tensors are the feature and
  target columns of the rows \<open>[0, train_end)\<close>, \<open>[train_end, val_end)\<close> and
  \<open>[val_end, n)\<close> of those, where the first call's are the same ranges of the raw rows
  permuted once. Both calls keep the raw rows as a multiset, and every tensor has the
  same row count after the second call as after the first.
\<close>

theorem setup_twice:
  assumes "is_randperm (tensor_len (data m)) p"
  shows "\<exists>m1 m2 train_end val_end sh1 sh2.
           RandomDataModule_setup stage1 p m = Inr m1 \<and>
           RandomDataModule_setup stage2 p m = Inr m1 \<and>
           RandomDataModule_setup stage2 p m1 = Inr m2 \<and>
           int train_end = train_samples_idx (tensor_len (data m)) \<and>
           int val_end = val_samples_idx (tensor_len (data m)) \<and>
           sh1 = map ((!) (rows (data m))) p \<and>
           sh2 = map (\<lambda>i. rows (data m) ! (p ! i)) p \<and>
           sh2 = map ((!) sh1) p \<and>
           data m1 = \<lparr>width = width (data m), rows = sh1\<rparr> \<and>
           data m2 = \<lparr>width = width (data m), rows = sh2\<rparr> \<and>
           mset sh1 = mset (rows (data m)) \<and>
           mset sh2 = mset (rows (data m)) \<and>
           train_input_data m1 =
             Some \<lparr>width = min (nat input_dim) (width (data m)),
                   rows = map (take (nat input_dim)) (take train_end sh1)\<rparr> \<and>
           train_output_data m1 =
             Some \<lparr>width = width (data m) - nat input_dim,
                   rows = map (drop (nat input_dim)) (take train_end sh1)\<rparr> \<and>
           val_input_data m1 =
             Some \<lparr>width = min (nat input_dim) (width (data m)),
                   rows = map (take (nat input_dim)) (drop train_end (take val_end sh1))\<rparr> \<and>
           val_output_data m1 =
             Some \<lparr>width = width (data m) - nat input_dim,
                   rows = map (drop (nat input_dim)) (drop train_end (take val_end sh1))\<rparr> \<and>
           test_input_data m1 =
             Some \<lparr>width = min (nat input_dim) (width (data m)),
                   rows = map (take (nat input_dim)) (drop val_end sh1)\<rparr> \<and>
           test_output_data m1 =
             Some \<lparr>width = width (data m) - nat input_dim,
                   rows = map (drop (nat input_dim)) (drop val_end sh1)\<rparr> \<and>
           train_input_data m2 =
             Some \<lparr>width = min (nat input_dim) (width (data m)),
                   rows = map (take (nat input_dim)) (take train_end sh2)\<rparr> \<and>
           train_output_data m2 =
             Some \<lparr>width = width (data m) - nat input_dim,
                   rows = map (drop (nat input_dim)) (take train_end sh2)\<rparr> \<and>
           val_input_data m2 =
             Some \<lparr>width = min (nat input_dim) (width (data m)),
                   rows = map (take (nat input_dim)) (drop train_end (take val_end sh2))\<rparr> \<and>
           val_output_data m2 =
             Some \<lparr>width = width (data m) - nat input_dim,
                   rows = map (drop (nat input_dim)) (drop train_end (take val_end sh2))\<rparr> \<and>
           test_input_data m2 =
             Some \<lparr>width = min (nat input_dim) (width (data m)),
                   rows = map (take (nat input_dim)) (drop val_end sh2)\<rparr> \<and>
           test_output_data m2 =
             Some \<lparr>width = width (data m) - nat input_dim,
                   rows = map (drop (nat input_dim)) (drop val_end sh2)\<rparr> \<and>
           map_option tensor_len (train_input_data m2) =
             map_option tensor_len (train_input_data m1) \<and>
           map_option tensor_len (train_output_data m2) =
             map_option tensor_len (train_output_data m1) \<and>
           map_option tensor_len (val_input_data m2) =
             map_option tensor_len (val_input_data m1) \<and>
           map_option tensor_len (val_output_data m2) =
             map_option tensor_len (val_output_data m1) \<and>
           map_option tensor_len (test_input_data m2) =
             map_option tensor_len (test_input_data m1) \<and>
           map_option tensor_len (test_output_data m2) =
             map_option tensor_len (test_output_data m1)"
proof -
  let ?n = "tensor_len (data m)"
  let ?sh1 = "map ((!) (rows (data m))) p"
  let ?sh2 = "map (\<lambda>i. rows (data m) ! (p ! i)) p"
  from setup_contents [OF assms, of stage1] obtain m1 train_end val_end where
    s1: "RandomDataModule_setup stage1 p m = Inr m1"
    and t: "int train_end = train_samples_idx ?n"
    and v: "int val_end = val_samples_idx ?n"
    and d1: "data m1 = \<lparr>width = width (data m), rows = ?sh1\<rparr>"
    and f1:
      "train_input_data m1 =
             Some \<lparr>width = min (nat input_dim) (width (data m)),
                   rows = map (take (nat input_dim)) (take train_end ?sh1)\<rparr>"
      "train_output_data m1 =
             Some \<lparr>width = width (data m) - nat input_dim,
                   rows = map (drop (nat input_dim)) (take train_end ?sh1)\<rparr>"
      "val_input_data m1 =
             Some \<lparr>width = min (nat input_dim) (width (data m)),
                   rows = map (take (nat input_dim)) (drop train_end (take val_end ?sh1))\<rparr>"
      "val_output_data m1 =
             Some \<lparr>width = width (data m) - nat input_dim,
                   rows = map (drop (nat input_dim)) (drop train_end (take val_end ?sh1))\<rparr>"
      "test_input_data m1 =
             Some \<lparr>width = min (nat input_dim) (width (data m)),
                   rows = map (take (nat input_dim)) (drop val_end ?sh1)\<rparr>"
      "test_output_data m1 =
             Some \<lparr>width = width (data m) - nat input_dim,
                   rows = map (drop (nat input_dim)) (drop val_end ?sh1)\<rparr>"
    by blast
  have s1': "RandomDataModule_setup stage2 p m = Inr m1"
    using s1 by (simp add: RandomDataModule_setup_def)
  have n1: "tensor_len (data m1) = ?n"
    using randperm_length [OF assms] by (simp add: d1 tensor_len_def)
  have w1: "width (data m1) = width (data m)" and r1: "rows (data m1) = ?sh1"
    by (simp_all add: d1)
  have rp: "is_randperm (tensor_len (data m1)) p"
    using assms by (simp only: n1)
  have tw: "map ((!) ?sh1) p = ?sh2"
    using shuffle_twice [of "rows (data m)" p] assms by (simp add: tensor_len_def)
  from setup_contents [OF rp, of stage2, unfolded n1 w1 r1 tw]
  obtain m2 train_end' val_end' where
    s2: "RandomDataModule_setup stage2 p m1 = Inr m2"
    and t': "int train_end' = train_samples_idx ?n"
    and v': "int val_end' = val_samples_idx ?n"
    and d2: "data m2 = \<lparr>width = width (data m), rows = ?sh2\<rparr>"
    and f2':
      "train_input_data m2 =
             Some \<lparr>width = min (nat input_dim) (width (data m)),
                   rows = map (take (nat input_dim)) (take train_end' ?sh2)\<rparr>"
      "train_output_data m2 =
             Some \<lparr>width = width (data m) - nat input_dim,
                   rows = map (drop (nat input_dim)) (take train_end' ?sh2)\<rparr>"
      "val_input_data m2 =
             Some \<lparr>width = min (nat input_dim) (width (data m)),
                   rows = map (take (nat input_dim)) (drop train_end' (take val_end' ?sh2))\<rparr>"
      "val_output_data m2 =
             Some \<lparr>width = width (data m) - nat input_dim,
                   rows = map (drop (nat input_dim)) (drop train_end' (take val_end' ?sh2))\<rparr>"
      "test_input_data m2 =
             Some \<lparr>width = min (nat input_dim) (width (data m)),
                   rows = map (take (nat input_dim)) (drop val_end' ?sh2)\<rparr>"
      "test_output_data m2 =
             Some \<lparr>width = width (data m) - nat input_dim,
                   rows = map (drop (nat input_dim)) (drop val_end' ?sh2)\<rparr>"
    by blast
  have te: "train_end' = train_end" and ve: "val_end' = val_end"
    using t t' v v' by simp_all
  note f2 = f2' [unfolded te ve]
  have ms1: "mset ?sh1 = mset (rows (data m))"
    using shuffle_mset [of "rows (data m)" p] assms by (simp add: tensor_len_def)
  have "mset (map ((!) ?sh1) p) = mset ?sh1"
    using shuffle_mset [of ?sh1 p] rp by (simp add: n1 [symmetric] r1 [symmetric] tensor_len_def)
  then have ms2: "mset ?sh2 = mset (rows (data m))"
    using ms1 tw by simp
  have len: "length ?sh2 = length ?sh1"
    by simp
  show ?thesis
    apply (rule exI [of _ m1], rule exI [of _ m2], rule exI [of _ train_end],
        rule exI [of _ val_end], rule exI [of _ ?sh1], rule exI [of _ ?sh2])
    apply (simp only: s1 s1' s2 t v d1 d2 ms1 ms2 f1 f2 tw simp_thms option.map tensor_len_def
        tensor.select_convs length_map length_take length_drop len)
    done
qed

theorem setup_twice_witness:
  "is_randperm (tensor_len (data (RandomDataModule_init 4
       \<lparr>width = 2, rows = [[1, 2], [3, 4], [5, 6::int]]\<rparr>))) [2, 0, 1] \<and>
   (\<exists>m1 m2.
       RandomDataModule_setup None [2, 0, 1]
         (RandomDataModule_init 4 \<lparr>width = 2, rows = [[1, 2], [3, 4], [5, 6::int]]\<rparr>) = Inr m1 \<and>
       RandomDataModule_setup None [2, 0, 1] m1 = Inr m2 \<and>
       data m1 = \<lparr>width = 2, rows = [[5, 6], [1, 2], [3, 4]]\<rparr> \<and>
       data m2 = \<lparr>width = 2, rows = [[3, 4], [5, 6], [1, 2]]\<rparr> \<and>
       train_input_data m1 = Some \<lparr>width = 1, rows = [[5], [1]]\<rparr> \<and>
       train_output_data m1 = Some \<lparr>width = 1, rows = [[6], [2]]\<rparr> \<and>
       test_input_data m1 = Some \<lparr>width = 1, rows = [[3]]\<rparr> \<and>
       train_input_data m2 = Some \<lparr>width = 1, rows = [[3], [5]]\<rparr> \<and>
       train_output_data m2 = Some \<lparr>width = 1, rows = [[4], [6]]\<rparr> \<and>
       val_input_data m2 = Some \<lparr>width = 1, rows = []\<rparr> \<and>
       test_input_data m2 = Some \<lparr>width = 1, rows = [[1]]\<rparr> \<and>
       test_output_data m2 = Some \<lparr>width = 1, rows = [[2]]\<rparr>)"
proof -
  let ?m = "RandomDataModule_init 4 \<lparr>width = 2, rows = [[1, 2], [3, 4], [5, 6::int]]\<rparr>"
  have n: "tensor_len (data ?m) = 3"
    by (simp add: RandomDataModule_init_def tensor_len_def)
  have r: "rows (data ?m) = [[1, 2], [3, 4], [5, 6]]" and w: "width (data ?m) = 2"
    by (simp_all add: RandomDataModule_init_def)
  have u: "[0..<3] = [0, 1, 2]"
    by (simp add: upt_rec)
  have h: "is_randperm (tensor_len (data ?m)) [2, 0, 1]"
    unfolding n is_randperm_def u by simp
  have idx: "train_samples_idx 3 = 2" "val_samples_idx 3 = 2"
    by (simp_all add: train_samples_idx_div val_samples_idx_div)
  from setup_twice [OF h, of None None] obtain m1 m2 train_end val_end sh1 sh2 where
    s: "RandomDataModule_setup None [2, 0, 1] ?m = Inr m1"
      "RandomDataModule_setup None [2, 0, 1] m1 = Inr m2"
    and t: "int train_end = train_samples_idx (tensor_len (data ?m))"
    and v: "int val_end = val_samples_idx (tensor_len (data ?m))"
    and sh: "sh1 = map ((!) (rows (data ?m))) [2, 0, 1]" "sh2 = map ((!) sh1) [2, 0, 1]"
    and d: "data m1 = \<lparr>width = width (data ?m), rows = sh1\<rparr>"
      "data m2 = \<lparr>width = width (data ?m), rows = sh2\<rparr>"
    and f1: "train_input_data m1 =
             Some \<lparr>width = min (nat input_dim) (width (data ?m)),
                   rows = map (take (nat input_dim)) (take train_end sh1)\<rparr>"
      "train_output_data m1 =
             Some \<lparr>width = width (data ?m) - nat input_dim,
                   rows = map (drop (nat input_dim)) (take train_end sh1)\<rparr>"
      "test_input_data m1 =
             Some \<lparr>width = min (nat input_dim) (width (data ?m)),
                   rows = map (take (nat input_dim)) (drop val_end sh1)\<rparr>"
    and f2: "train_input_data m2 =
             Some \<lparr>width = min (nat input_dim) (width (data ?m)),
                   rows = map (take (nat input_dim)) (take train_end sh2)\<rparr>"
      "train_output_data m2 =
             Some \<lparr>width = width (data ?m) - nat input_dim,
                   rows = map (drop (nat input_dim)) (take train_end sh2)\<rparr>"
      "val_input_data m2 =
             Some \<lparr>width = min (nat input_dim) (width (data ?m)),
                   rows = map (take (nat input_dim)) (drop train_end (take val_end sh2))\<rparr>"
      "test_input_data m2 =
             Some \<lparr>width = min (nat input_dim) (width (data ?m)),
                   rows = map (take (nat input_dim)) (drop val_end sh2)\<rparr>"
      "test_output_data m2 =
             Some \<lparr>width = width (data ?m) - nat input_dim,
                   rows = map (drop (nat input_dim)) (drop val_end sh2)\<rparr>"
    by blast
  have te: "train_end = 2" and ve: "val_end = 2"
    using t v unfolding n idx by simp_all
  have sh1: "sh1 = [[5, 6], [1, 2], [3, 4]]"
    unfolding sh r by simp
  have sh2: "sh2 = [[3, 4], [5, 6], [1, 2]]"
    unfolding sh(2) sh1 by simp
  have "data m1 = \<lparr>width = 2, rows = [[5, 6], [1, 2], [3, 4]]\<rparr>"
    "data m2 = \<lparr>width = 2, rows = [[3, 4], [5, 6], [1, 2]]\<rparr>"
    "train_input_data m1 = Some \<lparr>width = 1, rows = [[5], [1]]\<rparr>"
    "train_output_data m1 = Some \<lparr>width = 1, rows = [[6], [2]]\<rparr>"
    "test_input_data m1 = Some \<lparr>width = 1, rows = [[3]]\<rparr>"
    "train_input_data m2 = Some \<lparr>width = 1, rows = [[3], [5]]\<rparr>"
    "train_output_data m2 = Some \<lparr>width = 1, rows = [[4], [6]]\<rparr>"
    "val_input_data m2 = Some \<lparr>width = 1, rows = []\<rparr>"
    "test_input_data m2 = Some \<lparr>width = 1, rows = [[1]]\<rparr>"
    "test_output_data m2 = Some \<lparr>width = 1, rows = [[2]]\<rparr>"
    unfolding d f1 f2 te ve sh1 sh2 w by (simp_all add: input_dim_def)
  with h s show ?thesis
    by blast
qed

subsection \<open>Claim C10\<close>

text \<open>
  Claim C10. \<^verbatim>\<open>setup\<close> reads neither its \<^verbatim>\<open>stage\<close> argument nor the partitions a
  previous call left: from module states that differ only in the six partition
  attributes, any two stage values and one permutation give the same result. With a
  permutation drawn by \<^verbatim>\<open>randperm\<close> that result is a full reshuffle and re-split: the
  data are the rows reordered by the permutation, and each of the six partition tensors
  is replaced by the feature or target columns of the rows \<open>[0, train_end)\<close>,
  \<open>[train_end, val_end)\<close> or \<open>[val_end, n)\<close> of the reordered data; the worker count and
  the batch size are kept.
\<close>

theorem setup_ignores_stage:
  "RandomDataModule_setup stage1 p
     (m\<lparr>train_input_data := a1, train_output_data := a2,
        val_input_data := a3, val_output_data := a4,
        test_input_data := a5, test_output_data := a6\<rparr>) =
   RandomDataModule_setup stage2 p m \<and>
   (is_randperm (tensor_len (data m)) p \<longrightarrow>
      (\<exists>m' train_end val_end sh.
            RandomDataModule_setup stage1 p
              (m\<lparr>train_input_data := a1, train_output_data := a2,
                 val_input_data := a3, val_output_data := a4,
                 test_input_data := a5, test_output_data := a6\<rparr>) = Inr m' \<and>
            RandomDataModule_setup stage2 p m = Inr m' \<and>
            int train_end = train_samples_idx (tensor_len (data m)) \<and>
            int val_end = val_samples_idx (tensor_len (data m)) \<and>
            sh = map ((!) (rows (data m))) p \<and>
            data m' = \<lparr>width = width (data m), rows = sh\<rparr> \<and>
            data_num_workers m' = data_num_workers m \<and>
            batch_size m' = batch_size m \<and>
            train_input_data m' =
              Some \<lparr>width = min (nat input_dim) (width (data m)),
                    rows = map (take (nat input_dim)) (take train_end sh)\<rparr> \<and>
            train_output_data m' =
              Some \<lparr>width = width (data m) - nat input_dim,
                    rows = map (drop (nat input_dim)) (take train_end sh)\<rparr> \<and>
            val_input_data m' =
              Some \<lparr>width = min (nat input_dim) (width (data m)),
                    rows = map (take (nat input_dim)) (drop train_end (take val_end sh))\<rparr> \<and>
            val_output_data m' =
              Some \<lparr>width = width (data m) - nat input_dim,
                    rows = map (drop (nat input_dim)) (drop train_end (take val_end sh))\<rparr> \<and>
            test_input_data m' =
              Some \<lparr>width = min (nat input_dim) (width (data m)),
                    rows = map (take (nat input_dim)) (drop val_end sh)\<rparr> \<and>
            test_output_data m' =
              Some \<lparr>width = width (data m) - nat input_dim,
                    rows = map (drop (nat input_dim)) (drop val_end sh)\<rparr>))"
proof
  show eq: "RandomDataModule_setup stage1 p
     (m\<lparr>train_input_data := a1, train_output_data := a2,
        val_input_data := a3, val_output_data := a4,
        test_input_data := a5, test_output_data := a6\<rparr>) =
   RandomDataModule_setup stage2 p m"
    by (simp add: RandomDataModule_setup_def Let_def split: sum.splits prod.splits)
  show "is_randperm (tensor_len (data m)) p \<longrightarrow>
      (\<exists>m' train_end val_end sh.
            RandomDataModule_setup stage1 p
              (m\<lparr>train_input_data := a1, train_output_data := a2,
                 val_input_data := a3, val_output_data := a4,
                 test_input_data := a5, test_output_data := a6\<rparr>) = Inr m' \<and>
            RandomDataModule_setup stage2 p m = Inr m' \<and>
            int train_end = train_samples_idx (tensor_len (data m)) \<and>
            int val_end = val_samples_idx (tensor_len (data m)) \<and>
            sh = map ((!) (rows (data m))) p \<and>
            data m' = \<lparr>width = width (data m), rows = sh\<rparr> \<and>
            data_num_workers m' = data_num_workers m \<and>
            batch_size m' = batch_size m \<and>
            train_input_data m' =
              Some \<lparr>width = min (nat input_dim) (width (data m)),
                    rows = map (take (nat input_dim)) (take train_end sh)\<rparr> \<and>
            train_output_data m' =
              Some \<lparr>width = width (data m) - nat input_dim,
                    rows = map (drop (nat input_dim)) (take train_end sh)\<rparr> \<and>
            val_input_data m' =
              Some \<lparr>width = min (nat input_dim) (width (data m)),
                    rows = map (take (nat input_dim)) (drop train_end (take val_end sh))\<rparr> \<and>
            val_output_data m' =
              Some \<lparr>width = width (data m) - nat input_dim,
                    rows = map (drop (nat input_dim)) (drop train_end (take val_end sh))\<rparr> \<and>
            test_input_data m' =
              Some \<lparr>width = min (nat input_dim) (width (data m)),
                    rows = map (take (nat input_dim)) (drop val_end sh)\<rparr> \<and>
            test_output_data m' =
              Some \<lparr>width = width (data m) - nat input_dim,
                    rows = map (drop (nat input_dim)) (drop val_end sh)\<rparr>)"
  proof
    assume rp: "is_randperm (tensor_len (data m)) p"
    from setup_contents [OF rp, of stage2]
    show "\<exists>m' train_end val_end sh.
            RandomDataModule_setup stage1 p
              (m\<lparr>train_input_data := a1, train_output_data := a2,
                 val_input_data := a3, val_output_data := a4,
                 test_input_data := a5, test_output_data := a6\<rparr>) = Inr m' \<and>
            RandomDataModule_setup stage2 p m = Inr m' \<and>
            int train_end = train_samples_idx (tensor_len (data m)) \<and>
            int val_end = val_samples_idx (tensor_len (data m)) \<and>
            sh = map ((!) (rows (data m))) p \<and>
            data m' = \<lparr>width = width (data m), rows = sh\<rparr> \<and>
            data_num_workers m' = data_num_workers m \<and>
            batch_size m' = batch_size m \<and>
            train_input_data m' =
              Some \<lparr>width = min (nat input_dim) (width (data m)),
                    rows = map (take (nat input_dim)) (take train_end sh)\<rparr> \<and>
            train_output_data m' =
              Some \<lparr>width = width (data m) - nat input_dim,
                    rows = map (drop (nat input_dim)) (take train_end sh)\<rparr> \<and>
            val_input_data m' =
              Some \<lparr>width = min (nat input_dim) (width (data m)),
                    rows = map (take (nat input_dim)) (drop train_end (take val_end sh))\<rparr> \<and>
            val_output_data m' =
              Some \<lparr>width = width (data m) - nat input_dim,
                    rows = map (drop (nat input_dim)) (drop train_end (take val_end sh))\<rparr> \<and>
            test_input_data m' =
              Some \<lparr>width = min (nat input_dim) (width (data m)),
                    rows = map (take (nat input_dim)) (drop val_end sh)\<rparr> \<and>
            test_output_data m' =
              Some \<lparr>width = width (data m) - nat input_dim,
                    rows = map (drop (nat input_dim)) (drop val_end sh)\<rparr>"
      unfolding eq by (simp only: conj_left_absorb)
  qed
qed

theorem setup_ignores_stage_witness:
  "is_randperm (tensor_len (data (RandomDataModule_init 4
       \<lparr>width = 2, rows = [[1, 2], [3, 4], [5, 6::int]]\<rparr>))) [2, 0, 1] \<and>
   (\<exists>m'. RandomDataModule_setup (Some ''fit'') [2, 0, 1]
           ((RandomDataModule_init 4 \<lparr>width = 2, rows = [[1, 2], [3, 4], [5, 6::int]]\<rparr>)
              \<lparr>train_input_data := Some \<lparr>width = 9, rows = [[0]]\<rparr>,
               train_output_data := Some \<lparr>width = 9, rows = [[0]]\<rparr>,
               val_input_data := Some \<lparr>width = 9, rows = [[0]]\<rparr>,
               val_output_data := Some \<lparr>width = 9, rows = [[0]]\<rparr>,
               test_input_data := Some \<lparr>width = 9, rows = [[0]]\<rparr>,
               test_output_data := Some \<lparr>width = 9, rows = [[0]]\<rparr>\<rparr>) = Inr m' \<and>
         RandomDataModule_setup (Some ''test'') [2, 0, 1]
           (RandomDataModule_init 4 \<lparr>width = 2, rows = [[1, 2], [3, 4], [5, 6::int]]\<rparr>) = Inr m' \<and>
         data m' = \<lparr>width = 2, rows = [[5, 6], [1, 2], [3, 4]]\<rparr> \<and>
         train_input_data m' = Some \<lparr>width = 1, rows = [[5], [1]]\<rparr> \<and>
         train_output_data m' = Some \<lparr>width = 1, rows = [[6], [2]]\<rparr> \<and>
         val_input_data m' = Some \<lparr>width = 1, rows = []\<rparr> \<and>
         val_output_data m' = Some \<lparr>width = 1, rows = []\<rparr> \<and>
         test_input_data m' = Some \<lparr>width = 1, rows = [[3]]\<rparr> \<and>
         test_output_data m' = Some \<lparr>width = 1, rows = [[4]]\<rparr>)"
proof -
  let ?m = "RandomDataModule_init 4 \<lparr>width = 2, rows = [[1, 2], [3, 4], [5, 6::int]]\<rparr>"
  let ?j = "Some \<lparr>width = 9, rows = [[0::int]]\<rparr>"
  have n: "tensor_len (data ?m) = 3"
    by (simp add: RandomDataModule_init_def tensor_len_def)
  have r: "rows (data ?m) = [[1, 2], [3, 4], [5, 6]]" and w: "width (data ?m) = 2"
    by (simp_all add: RandomDataModule_init_def)
  have u: "[0..<3] = [0, 1, 2]"
    by (simp add: upt_rec)
  have h: "is_randperm (tensor_len (data ?m)) [2, 0, 1]"
    unfolding n is_randperm_def u by simp
  have idx: "train_samples_idx 3 = 2" "val_samples_idx 3 = 2"
    by (simp_all add: train_samples_idx_div val_samples_idx_div)
  from setup_ignores_stage [where ?stage1.0 = "Some ''fit''" and p = "[2, 0, 1]" and m = ?m
      and ?stage2.0 = "Some ''test''" and ?a1.0 = ?j and ?a2.0 = ?j and ?a3.0 = ?j
      and ?a4.0 = ?j and ?a5.0 = ?j and ?a6.0 = ?j, THEN conjunct2, rule_format, OF h]
  obtain m' train_end val_end sh where
    s: "RandomDataModule_setup (Some ''fit'') [2, 0, 1]
          (?m\<lparr>train_input_data := ?j, train_output_data := ?j, val_input_data := ?j,
               val_output_data := ?j, test_input_data := ?j, test_output_data := ?j\<rparr>) = Inr m'"
      "RandomDataModule_setup (Some ''test'') [2, 0, 1] ?m = Inr m'"
    and t: "int train_end = train_samples_idx (tensor_len (data ?m))"
    and v: "int val_end = val_samples_idx (tensor_len (data ?m))"
    and sh: "sh = map ((!) (rows (data ?m))) [2, 0, 1]"
    and d: "data m' = \<lparr>width = width (data ?m), rows = sh\<rparr>"
    and f: "train_input_data m' =
              Some \<lparr>width = min (nat input_dim) (width (data ?m)),
                    rows = map (take (nat input_dim)) (take train_end sh)\<rparr>"
      "train_output_data m' =
              Some \<lparr>width = width (data ?m) - nat input_dim,
                    rows = map (drop (nat input_dim)) (take train_end sh)\<rparr>"
      "val_input_data m' =
              Some \<lparr>width = min (nat input_dim) (width (data ?m)),
                    rows = map (take (nat input_dim)) (drop train_end (take val_end sh))\<rparr>"
      "val_output_data m' =
              Some \<lparr>width = width (data ?m) - nat input_dim,
                    rows = map (drop (nat input_dim)) (drop train_end (take val_end sh))\<rparr>"
      "test_input_data m' =
              Some \<lparr>width = min (nat input_dim) (width (data ?m)),
                    rows = map (take (nat input_dim)) (drop val_end sh)\<rparr>"
      "test_output_data m' =
              Some \<lparr>width = width (data ?m) - nat input_dim,
                    rows = map (drop (nat input_dim)) (drop val_end sh)\<rparr>"
    by blast
  have te: "train_end = 2" and ve: "val_end = 2"
    using t v unfolding n idx by simp_all
  have sh': "sh = [[5, 6], [1, 2], [3, 4]]"
    unfolding sh r by simp
  have "data m' = \<lparr>width = 2, rows = [[5, 6], [1, 2], [3, 4]]\<rparr>"
    "train_input_data m' = Some \<lparr>width = 1, rows = [[5], [1]]\<rparr>"
    "train_output_data m' = Some \<lparr>width = 1, rows = [[6], [2]]\<rparr>"
    "val_input_data m' = Some \<lparr>width = 1, rows = []\<rparr>"
    "val_output_data m' = Some \<lparr>width = 1, rows = []\<rparr>"
    "test_input_data m' = Some \<lparr>width = 1, rows = [[3]]\<rparr>"
    "test_output_data m' = Some \<lparr>width = 1, rows = [[4]]\<rparr>"
    unfolding d f te ve sh' w by (simp_all add: input_dim_def)
  with h s show ?thesis
    by blast
qed

end
